theory Spec2Isabelle
  imports Complex_Main
begin

section \<open>Data model (app/types/index.ts)\<close>

text \<open>
  The entities of the fleet application, field by field as the TypeScript interfaces
  declare them. A JavaScript \<open>number\<close> that measures something (coordinates, distances,
  salary) is a \<open>real\<close>; the counters of \<open>SystemStats\<close> are integers. An optional field
  (\<open>f?: T\<close>) and a nullable one (\<open>T | null\<close>) are \<open>T option\<close>. String unions are datatypes.
  Field names shared by several interfaces (\<open>id\<close>, \<open>name\<close>, \<open>status\<close>, ...) are written
  qualified: \<open>Journey.id\<close>, \<open>Car.status\<close>.
\<close>

record Location =
  lat :: real
  lng :: real
  address :: string

record DistanceMetrics =
  day :: real
  month :: real
  year :: real

datatype Role = role_user | role_driver | role_admin

text \<open>
  What \<open>({ password, ...user }) => user\<close> leaves of a user and of a driver: every field
  but \<open>password\<close>.
\<close>

record UserWithoutPassword =
  id :: string
  email :: string
  name :: string
  role :: Role
  isActive :: bool
  designation :: string
  department :: string
  currentLocation :: "Location option"
  carsUsed :: "string list"
  totalDistance :: DistanceMetrics

record DriverWithoutPassword =
  id :: string
  email :: string
  name :: string
  role :: Role
  isActive :: bool
  dob :: string
  licenseNo :: string
  licenseExpiry :: string
  onLeave :: bool
  salary :: real
  totalLeave :: real
  remainingLeave :: real
  currentLocation :: Location
  totalTravelledDistance :: DistanceMetrics

text \<open>\<open>User | Admin\<close>: the two interfaces have the same fields and differ in \<open>role\<close> only.\<close>

record User =
  id :: string
  email :: string
  password :: string
  name :: string
  role :: Role
  isActive :: bool
  designation :: string
  department :: string
  currentLocation :: "Location option"
  carsUsed :: "string list"
  totalDistance :: DistanceMetrics

record Driver =
  id :: string
  email :: string
  password :: string
  name :: string
  role :: Role
  isActive :: bool
  dob :: string
  licenseNo :: string
  licenseExpiry :: string
  onLeave :: bool
  salary :: real
  totalLeave :: real
  remainingLeave :: real
  currentLocation :: Location
  totalTravelledDistance :: DistanceMetrics

datatype CarStatus = available | in_use | servicing | cleaning

record Car =
  id :: string
  model :: string
  regNo :: string
  drivers :: "string list"
  users :: "string list"
  status :: CarStatus
  isClean :: bool
  needsServicing :: bool
  totalDistanceTravelled :: DistanceMetrics
  currentLocation :: Location

datatype RouteChangeType = waypoint_added | waypoint_removed | destination_changed

record RouteChange =
  type :: RouteChangeType
  timestamp :: string
  waypoint :: "Location option"
  reason :: "string option"

datatype JourneyStatus = requested | in_progress | completed | cancelled

record Journey =
  userDesignation :: "string option"
  id :: string
  carId :: string
  driverId :: string
  userId :: string
  userName :: string
  driverName :: string
  carModel :: string
  startLocation :: Location
  endLocation :: Location
  waypoints :: "Location list"
  status :: JourneyStatus
  startTime :: string
  endTime :: "string option"
  distance :: real
  rating :: "real option"
  routeChanges :: "RouteChange list"
  estimatedDuration :: real

datatype LeaveStatus = pending | approved | rejected

record LeaveRequest =
  id :: string
  driverId :: string
  startDate :: string
  endDate :: string
  reason :: string
  status :: LeaveStatus
  submittedAt :: string

record SystemStats =
  totalUsers :: int
  totalDrivers :: int
  totalCars :: int
  activeJourneys :: int
  pendingRequests :: int
  availableCars :: int
  driversOnLeave :: int
  monthlyDistance :: real

record SanitizedData =
  users :: "UserWithoutPassword list"
  drivers :: "DriverWithoutPassword list"
  cars :: "Car list"
  locations :: "Location list"
  journeys :: "Journey list"
  leaveRequests :: "LeaveRequest list"
  systemStats :: SystemStats

record FleetData =
  users :: "User list"
  drivers :: "Driver list"
  cars :: "Car list"
  locations :: "Location list"
  journeys :: "Journey list"
  leaveRequests :: "LeaveRequest list"
  systemStats :: SystemStats

section \<open>The persistence helpers of the route handlers\<close>

text \<open>
  The JSON file \<open>app/data/demoData.json\<close> is the only state. \<open>fileContents\<close> is its parsed
  content (\<open>None\<close> when it cannot be read or parsed); \<open>writes\<close> logs every call of
  \<open>writeData\<close> with its argument, whether or not the write went through.
\<close>

record World =
  fileContents :: "FleetData option"
  writes :: "FleetData list"

definition emptyData :: FleetData where
  "emptyData =
     \<lparr>users = [], drivers = [], cars = [], locations = [], journeys = [], leaveRequests = [],
      systemStats = \<lparr>totalUsers = 0, totalDrivers = 0, totalCars = 0, activeJourneys = 0,
        pendingRequests = 0, availableCars = 0, driversOnLeave = 0, monthlyDistance = 0\<rparr>\<rparr>"

text \<open>\<open>readData\<close> of the journey routes: a failed read is caught and yields the empty data.\<close>

definition readData :: "World \<Rightarrow> FleetData" where
  "readData w = (case fileContents w of Some d \<Rightarrow> d | None \<Rightarrow> emptyData)"

text \<open>
  \<open>writeData\<close>: \<open>fs.writeFileSync\<close> either replaces the file and the helper returns true, or
  throws and the helper returns false. Whether the disk accepts the write is the
  parameter \<open>disk_ok\<close>.
\<close>

definition writeData :: "bool \<Rightarrow> FleetData \<Rightarrow> World \<Rightarrow> bool \<times> World" where
  "writeData disk_ok d w =
     (if disk_ok then (True, w\<lparr>fileContents := Some d, writes := writes w @ [d]\<rparr>)
      else (False, w\<lparr>writes := writes w @ [d]\<rparr>))"

text \<open>
  \<open>NextResponse.json({error: m}, {status: c})\<close> is \<open>ErrorJson c m\<close>;
  \<open>NextResponse.json({message, data})\<close> with the default status 200 is \<open>OkJson message data\<close>.
\<close>

datatype 'a NextResponse = ErrorJson nat string | OkJson "string option" "'a option"

text \<open>\<open>Array.prototype.findIndex\<close>: the first index that satisfies the predicate; \<open>-1\<close> is \<open>None\<close>.
  \<open>Array.prototype.find\<close> is \<open>List.find\<close>.\<close>

fun findIndex :: "('a \<Rightarrow> bool) \<Rightarrow> 'a list \<Rightarrow> nat option" where
  "findIndex P [] = None"
| "findIndex P (x # xs) = (if P x then Some 0 else map_option Suc (findIndex P xs))"

section \<open>POST /api/admin/journeys/assign\<close>

record AssignJourneyRequest =
  journeyId :: string
  carId :: string
  driverId :: string

text \<open>
  The request body is \<open>None\<close> when \<open>request.json()\<close> throws a \<open>SyntaxError\<close>. A string
  field is falsy exactly when it is empty (a missing field is read as the empty string).
  \<open>data.systemStats\<close> is an object in every \<open>FleetData\<close>, so the guards
  \<open>if (data.systemStats)\<close> are passed, and \<open>n || 0\<close> is \<open>n\<close> for a counter \<open>n\<close>.
\<close>

definition admin_assign_POST ::
  "bool \<Rightarrow> AssignJourneyRequest option \<Rightarrow> World \<Rightarrow> unit NextResponse \<times> World" where
  "admin_assign_POST disk_ok body w =
    (case body of
       None \<Rightarrow> (ErrorJson 400 ''Invalid JSON in request body'', w)
     | Some req \<Rightarrow>
      (if AssignJourneyRequest.journeyId req = [] \<or> AssignJourneyRequest.carId req = []
          \<or> AssignJourneyRequest.driverId req = []
       then (ErrorJson 400 ''Journey ID, Car ID, and Driver ID are required'', w)
       else
        (let data = readData w in
        (case findIndex (\<lambda>j. Journey.id j = AssignJourneyRequest.journeyId req)
                (journeys data) of
           None \<Rightarrow> (ErrorJson 404 ''Journey not found'', w)
         | Some journeyIndex \<Rightarrow>
          (let journey = journeys data ! journeyIndex in
          (if Journey.status journey \<noteq> requested
           then (ErrorJson 400 ''Can only assign car and driver to requested journeys'', w)
           else
            (case List.find (\<lambda>c. Car.id c = AssignJourneyRequest.carId req) (cars data) of
               None \<Rightarrow> (ErrorJson 404 ''Car not found'', w)
             | Some car \<Rightarrow>
              (if Car.status car \<noteq> available
               then (ErrorJson 400 ''Car is not available'', w)
               else
                (case List.find (\<lambda>d. Driver.id d = AssignJourneyRequest.driverId req)
                        (drivers data) of
                   None \<Rightarrow> (ErrorJson 404 ''Driver not found'', w)
                 | Some driver \<Rightarrow>
                  (if onLeave driver
                   then (ErrorJson 400 ''Driver is on leave'', w)
                   else
                    (let cars' =
                           (case findIndex (\<lambda>c. Car.id c = AssignJourneyRequest.carId req)
                                   (cars data) of
                              None \<Rightarrow> cars data
                            | Some carIndex \<Rightarrow>
                                (cars data)[carIndex :=
                                   (cars data ! carIndex)\<lparr>Car.status := in_use\<rparr>]);
                         updatedJourney =
                           journey\<lparr>Journey.carId := AssignJourneyRequest.carId req,
                                   Journey.driverId := AssignJourneyRequest.driverId req,
                                   driverName := Driver.name driver,
                                   carModel := model car,
                                   Journey.status := in_progress\<rparr>;
                         journeys' = (journeys data)[journeyIndex := updatedJourney];
                         stats' = (systemStats data)
                           \<lparr>pendingRequests :=
                              int (length (filter (\<lambda>j. Journey.status j = requested) journeys')),
                            activeJourneys :=
                              int (length (filter (\<lambda>j. Journey.status j = in_progress) journeys')),
                            availableCars :=
                              int (length (filter (\<lambda>c. Car.status c = available) cars'))\<rparr>;
                         data' = data\<lparr>cars := cars', journeys := journeys',
                                      systemStats := stats'\<rparr>;
                         written = writeData disk_ok data' w
                     in if fst written
                        then (OkJson (Some ''Car and driver assigned successfully'') None,
                              snd written)
                        else (ErrorJson 500 ''Failed to assign car and driver'',
                              snd written))))))))))))"

section \<open>POST /api/journeys/request\<close>

record JourneyRequest =
  userId :: string
  destination :: string
  startLocation :: "Location option"
  notes' :: "string option"

text \<open>
  The template literal \<open>`journey-${Date.now()}`\<close> renders the millisecond count in
  decimal. \<open>Date.now()\<close> is the parameter \<open>now_ms\<close> of the handler, and
  \<open>new Date().toISOString()\<close> the parameter \<open>now_iso\<close>.
\<close>

function number_toString :: "nat \<Rightarrow> string" where
  "number_toString n =
     (if n < 10 then [''0123456789'' ! n]
      else number_toString (n div 10) @ [''0123456789'' ! (n mod 10)])"
  by pat_completeness auto
termination
  by (relation "measure (\<lambda>n. n)") auto

declare number_toString.simps [simp del]

text \<open>
  The presence check \<open>!userId || !destination || !startLocation\<close>: the two strings are
  falsy when empty, the object when absent. The check of \<open>startLocation\<close> is the
  \<open>None\<close> branch of the case below, with the same response.
\<close>

definition journeys_request_POST ::
  "bool \<Rightarrow> JourneyRequest option \<Rightarrow> nat \<Rightarrow> string \<Rightarrow> World \<Rightarrow> Journey NextResponse \<times> World" where
  "journeys_request_POST disk_ok body now_ms now_iso w =
    (case body of
       None \<Rightarrow> (ErrorJson 400 ''Invalid JSON in request body'', w)
     | Some req \<Rightarrow>
      (if JourneyRequest.userId req = [] \<or> destination req = []
       then (ErrorJson 400 ''User ID, destination, and start location are required'', w)
       else
        (case JourneyRequest.startLocation req of
           None \<Rightarrow> (ErrorJson 400 ''User ID, destination, and start location are required'', w)
         | Some startLoc \<Rightarrow>
          (let data = readData w in
          (case List.find (\<lambda>u. User.id u = JourneyRequest.userId req) (users data) of
             None \<Rightarrow> (ErrorJson 404 ''User not found'', w)
           | Some user \<Rightarrow>
            (case List.find (\<lambda>j. Journey.userId j = JourneyRequest.userId req
                                \<and> Journey.status j = requested) (journeys data) of
               Some existingRequest \<Rightarrow>
                 (ErrorJson 409 ''You already have a pending journey request'', w)
             | None \<Rightarrow>
              (let newJourney =
                     \<lparr>userDesignation = None,
                      Journey.id = ''journey-'' @ number_toString now_ms,
                      Journey.carId = [],
                      Journey.driverId = [],
                      Journey.userId = JourneyRequest.userId req,
                      userName = User.name user,
                      driverName = [],
                      carModel = [],
                      Journey.startLocation = startLoc,
                      endLocation = \<lparr>lat = 0, lng = 0, address = destination req\<rparr>,
                      waypoints = [],
                      Journey.status = requested,
                      startTime = now_iso,
                      endTime = None,
                      distance = 0,
                      rating = None,
                      routeChanges = [],
                      estimatedDuration = 0\<rparr>;
                   pushed = data\<lparr>journeys := journeys data @ [newJourney]\<rparr>;
                   data' = pushed\<lparr>systemStats := (systemStats pushed)
                             \<lparr>pendingRequests := pendingRequests (systemStats pushed) + 1\<rparr>\<rparr>;
                   written = writeData disk_ok data' w
               in if fst written
                  then (OkJson
                          (Some ''Journey request submitted successfully. Waiting for admin allocation.'')
                          (Some newJourney),
                        snd written)
                  else (ErrorJson 500 ''Failed to create journey request'', snd written))))))))"

section \<open>POST /api/journeys/cancel\<close>

record CancelRequest =
  journeyId :: string
  reason :: "string option"

text \<open>Truthiness of an optional string: present and not empty.\<close>

definition truthy :: "string option \<Rightarrow> bool" where
  "truthy r = (case r of None \<Rightarrow> False | Some s \<Rightarrow> s \<noteq> [])"

text \<open>
  \<open>journey\<close> keeps denoting the object read before the update, so the two tests of
  \<open>journey.status\<close> in the stats block see the old status.
\<close>

definition journeys_cancel_POST ::
  "bool \<Rightarrow> CancelRequest option \<Rightarrow> string \<Rightarrow> World \<Rightarrow> Journey NextResponse \<times> World" where
  "journeys_cancel_POST disk_ok body now_iso w =
    (case body of
       None \<Rightarrow> (ErrorJson 400 ''Invalid JSON in request body'', w)
     | Some req \<Rightarrow>
      (if CancelRequest.journeyId req = []
       then (ErrorJson 400 ''Journey ID is required'', w)
       else
        (let data = readData w in
        (case findIndex (\<lambda>j. Journey.id j = CancelRequest.journeyId req) (journeys data) of
           None \<Rightarrow> (ErrorJson 404 ''Journey not found'', w)
         | Some journeyIndex \<Rightarrow>
          (let journey = journeys data ! journeyIndex in
          (if Journey.status journey = completed
           then (ErrorJson 400 ''Cannot cancel a completed journey'', w)
           else if Journey.status journey = cancelled
           then (ErrorJson 400 ''Journey is already cancelled'', w)
           else
            (let journeys' = (journeys data)[journeyIndex :=
                                journey\<lparr>Journey.status := cancelled, endTime := Some now_iso\<rparr>];
                 stats1 = (if Journey.status journey = requested
                           then (systemStats data)
                                  \<lparr>pendingRequests :=
                                     max 0 (pendingRequests (systemStats data) - 1)\<rparr>
                           else systemStats data);
                 stats2 = (if Journey.status journey = in_progress
                           then stats1\<lparr>activeJourneys := max 0 (activeJourneys stats1 - 1)\<rparr>
                           else stats1);
                 data' = data\<lparr>journeys := journeys', systemStats := stats2\<rparr>;
                 written = writeData disk_ok data' w
             in if fst written
                then (OkJson
                        (Some (if truthy (CancelRequest.reason req)
                               then ''Journey cancelled: '' @ the (CancelRequest.reason req)
                               else ''Journey cancelled successfully''))
                        (Some (journeys' ! journeyIndex)),
                      snd written)
                else (ErrorJson 500 ''Failed to cancel journey'', snd written))))))))"

section \<open>POST /api/journeys/dropoff\<close>

record DropoffRequest =
  journeyId :: string
  reason :: "string option"

definition journeys_dropoff_POST ::
  "bool \<Rightarrow> DropoffRequest option \<Rightarrow> string \<Rightarrow> World \<Rightarrow> Journey NextResponse \<times> World" where
  "journeys_dropoff_POST disk_ok body now_iso w =
    (case body of
       None \<Rightarrow> (ErrorJson 400 ''Invalid JSON in request body'', w)
     | Some req \<Rightarrow>
      (if DropoffRequest.journeyId req = []
       then (ErrorJson 400 ''Journey ID is required'', w)
       else
        (let data = readData w in
        (case findIndex (\<lambda>j. Journey.id j = DropoffRequest.journeyId req) (journeys data) of
           None \<Rightarrow> (ErrorJson 404 ''Journey not found'', w)
         | Some journeyIndex \<Rightarrow>
          (let journey = journeys data ! journeyIndex in
          (if Journey.status journey \<noteq> in_progress
           then (ErrorJson 400 ''Drop-off can only be requested for journeys in progress'', w)
           else
            (let updatedJourney =
                   journey\<lparr>Journey.status := completed, endTime := Some now_iso\<rparr>;
                 journeys' = (journeys data)[journeyIndex := updatedJourney];
                 stats' = (systemStats data)
                            \<lparr>activeJourneys := max 0 (activeJourneys (systemStats data) - 1)\<rparr>;
                 data' = data\<lparr>journeys := journeys', systemStats := stats'\<rparr>;
                 written = writeData disk_ok data' w
             in if fst written
                then (OkJson
                        (Some (if truthy (DropoffRequest.reason req)
                               then ''Drop-off requested: '' @ the (DropoffRequest.reason req)
                               else ''Drop-off request sent to driver successfully''))
                        (Some updatedJourney),
                      snd written)
                else (ErrorJson 500 ''Failed to request drop-off'', snd written))))))))"

section \<open>POST /api/journeys/route-change\<close>

record RouteChangeRequest =
  journeyId :: string
  newWaypoint :: string
  reason :: "string option"

definition journeys_route_change_POST ::
  "bool \<Rightarrow> RouteChangeRequest option \<Rightarrow> string \<Rightarrow> World \<Rightarrow> Journey NextResponse \<times> World" where
  "journeys_route_change_POST disk_ok body now_iso w =
    (case body of
       None \<Rightarrow> (ErrorJson 400 ''Invalid JSON in request body'', w)
     | Some req \<Rightarrow>
      (if RouteChangeRequest.journeyId req = [] \<or> newWaypoint req = []
       then (ErrorJson 400 ''Journey ID and new waypoint are required'', w)
       else
        (let data = readData w in
        (case findIndex (\<lambda>j. Journey.id j = RouteChangeRequest.journeyId req) (journeys data) of
           None \<Rightarrow> (ErrorJson 404 ''Journey not found'', w)
         | Some journeyIndex \<Rightarrow>
          (let journey = journeys data ! journeyIndex in
          (if Journey.status journey \<noteq> in_progress
           then (ErrorJson 400 ''Route changes can only be requested for journeys in progress'', w)
           else
            (let newWaypointLocation = \<lparr>lat = 0, lng = 0, address = newWaypoint req\<rparr>;
                 updatedJourney =
                   journey\<lparr>waypoints := waypoints journey @ [newWaypointLocation],
                           routeChanges := routeChanges journey @
                             [\<lparr>type = waypoint_added,
                               timestamp = now_iso,
                               waypoint = Some newWaypointLocation,
                               RouteChange.reason = RouteChangeRequest.reason req\<rparr>]\<rparr>;
                 data' = data\<lparr>journeys := (journeys data)[journeyIndex := updatedJourney]\<rparr>;
                 written = writeData disk_ok data' w
             in if fst written
                then (OkJson (Some ''Route change request sent to driver successfully'')
                        (Some updatedJourney),
                      snd written)
                else (ErrorJson 500 ''Failed to request route change'', snd written))))))))"

section \<open>PUT /api/journeys/assign\<close>

text \<open>
  A second assignment route, which the admin page does not call. It reads and writes the
  file directly; any exception, a malformed body included, is answered 500. It checks
  neither the journey's status nor the car and driver. Its success body carries the
  updated journey.
\<close>

definition journeys_assign_PUT ::
  "bool \<Rightarrow> AssignJourneyRequest option \<Rightarrow> World \<Rightarrow> Journey NextResponse \<times> World" where
  "journeys_assign_PUT disk_ok body w =
    (case body of
       None \<Rightarrow> (ErrorJson 500 ''Failed to assign car and driver'', w)
     | Some req \<Rightarrow>
      (if AssignJourneyRequest.journeyId req = [] \<or> AssignJourneyRequest.carId req = []
          \<or> AssignJourneyRequest.driverId req = []
       then (ErrorJson 400 ''Journey ID, Car ID, and Driver ID are required'', w)
       else
        (case fileContents w of
           None \<Rightarrow> (ErrorJson 500 ''Failed to assign car and driver'', w)
         | Some data \<Rightarrow>
          (case findIndex (\<lambda>j. Journey.id j = AssignJourneyRequest.journeyId req)
                  (journeys data) of
             None \<Rightarrow> (ErrorJson 404 ''Journey not found'', w)
           | Some journeyIndex \<Rightarrow>
            (let journeys' = (journeys data)[journeyIndex :=
                   (journeys data ! journeyIndex)
                     \<lparr>Journey.carId := AssignJourneyRequest.carId req,
                      Journey.driverId := AssignJourneyRequest.driverId req,
                      Journey.status := in_progress\<rparr>];
                 cars' =
                   (case findIndex (\<lambda>c. Car.id c = AssignJourneyRequest.carId req)
                           (cars data) of
                      None \<Rightarrow> cars data
                    | Some carIndex \<Rightarrow>
                        (cars data)[carIndex :=
                           (cars data ! carIndex)\<lparr>Car.status := in_use\<rparr>]);
                 data' = data\<lparr>journeys := journeys', cars := cars'\<rparr>;
                 written = writeData disk_ok data' w
             in if fst written
                then (OkJson (Some ''Car and driver assigned successfully'')
                        (Some (journeys' ! journeyIndex)),
                      snd written)
                else (ErrorJson 500 ''Failed to assign car and driver'', snd written))))))"

section \<open>The drivers' journey-status handlers\<close>

text \<open>
  Two more handlers write a journey's status, both without looking at the old one. They use
  the helpers of \<open>app/lib/demoData.ts\<close>, which rethrow a failed read or write, so both
  failures end in the handler's \<open>catch\<close> with 500.

  The first is the POST handler whose body is \<open>{driverId, journeyId, status}\<close>. A missing
  \<open>status\<close> is \<open>None\<close>. The template literal renders the status as the string it is.
\<close>

fun status_toString :: "JourneyStatus \<Rightarrow> string" where
  "status_toString requested = ''requested''"
| "status_toString in_progress = ''in-progress''"
| "status_toString completed = ''completed''"
| "status_toString cancelled = ''cancelled''"

record UpdateJourneyStatusRequest =
  driverId :: string
  journeyId :: string
  status :: "JourneyStatus option"

definition driver_journey_status_POST ::
  "bool \<Rightarrow> UpdateJourneyStatusRequest option \<Rightarrow> string \<Rightarrow> World \<Rightarrow> bool NextResponse \<times> World" where
  "driver_journey_status_POST disk_ok body now_iso w =
    (case body of
       None \<Rightarrow> (ErrorJson 400 ''Invalid JSON in request body'', w)
     | Some req \<Rightarrow>
      (if UpdateJourneyStatusRequest.driverId req = []
          \<or> UpdateJourneyStatusRequest.journeyId req = []
       then (ErrorJson 400 ''Driver ID, journey ID, and status are required'', w)
       else
        (case UpdateJourneyStatusRequest.status req of
           None \<Rightarrow> (ErrorJson 400 ''Driver ID, journey ID, and status are required'', w)
         | Some newStatus \<Rightarrow>
          (case fileContents w of
             None \<Rightarrow> (ErrorJson 500 ''Failed to update journey status'', w)
           | Some data \<Rightarrow>
            (case findIndex (\<lambda>journey.
                      Journey.id journey = UpdateJourneyStatusRequest.journeyId req
                      \<and> Journey.driverId journey = UpdateJourneyStatusRequest.driverId req)
                    (journeys data) of
               None \<Rightarrow> (ErrorJson 404 ''Journey not found or driver not authorized'', w)
             | Some journeyIndex \<Rightarrow>
              (let set_status = (journeys data ! journeyIndex)\<lparr>Journey.status := newStatus\<rparr>;
                   set_end = (if newStatus = completed
                              then set_status\<lparr>endTime := Some now_iso\<rparr> else set_status);
                   set_start = (if newStatus = in_progress
                                then set_end\<lparr>startTime := now_iso\<rparr> else set_end);
                   data' = data\<lparr>journeys := (journeys data)[journeyIndex := set_start]\<rparr>;
                   written = writeData disk_ok data' w
               in if fst written
                  then (OkJson (Some (''Journey '' @ status_toString newStatus @ '' successfully''))
                          (Some True),
                        snd written)
                  else (ErrorJson 500 ''Failed to update journey status'', snd written)))))))"

text \<open>
  The second is the action \<open>update-journey-status\<close> of the drivers' multi-action POST
  handler; its other actions (location, profile, leave request, distance metrics) leave
  the journeys alone and are not modelled. The body is \<open>{action, driverId, journeyId, status}\<close>
  with the action fixed, so of the presence check \<open>!action || !driverId\<close> only the driver id
  is left. A journey that is not found leaves \<open>updated\<close> false, which is answered 500.
\<close>

record UpdateJourneyStatusAction =
  driverId :: string
  journeyId :: string
  status :: JourneyStatus

definition driver_POST_update_journey_status ::
  "bool \<Rightarrow> UpdateJourneyStatusAction option \<Rightarrow> string \<Rightarrow> World \<Rightarrow> bool NextResponse \<times> World" where
  "driver_POST_update_journey_status disk_ok body now_iso w =
    (case body of
       None \<Rightarrow> (ErrorJson 400 ''Invalid JSON in request body'', w)
     | Some req \<Rightarrow>
      (if UpdateJourneyStatusAction.driverId req = []
       then (ErrorJson 400 ''Action and driver ID are required'', w)
       else
        (case fileContents w of
           None \<Rightarrow> (ErrorJson 500 ''Failed to process request'', w)
         | Some data \<Rightarrow>
          (case findIndex (\<lambda>j. Journey.id j = UpdateJourneyStatusAction.journeyId req
                              \<and> Journey.driverId j = UpdateJourneyStatusAction.driverId req)
                  (journeys data) of
             None \<Rightarrow> (ErrorJson 500 ''Failed to update data'', w)
           | Some journeyIndex \<Rightarrow>
            (let newStatus = UpdateJourneyStatusAction.status req;
                 set_status = (journeys data ! journeyIndex)\<lparr>Journey.status := newStatus\<rparr>;
                 set_times = (if newStatus = completed
                              then set_status\<lparr>endTime := Some now_iso\<rparr>
                              else if newStatus = in_progress
                              then set_status\<lparr>startTime := now_iso\<rparr>
                              else set_status);
                 data' = data\<lparr>journeys := (journeys data)[journeyIndex := set_times]\<rparr>;
                 written = writeData disk_ok data' w
             in if fst written
                then (OkJson (Some ''Operation completed successfully'') (Some True),
                      snd written)
                else (ErrorJson 500 ''Failed to process request'', snd written))))))"

section \<open>GET /api/data\<close>

text \<open>
  The \<open>readData\<close> of this route rethrows a failed read, and the handler's \<open>catch\<close>
  answers 500. The handler writes nothing, so it returns the response only.
\<close>

definition removePassword_user :: "User \<Rightarrow> UserWithoutPassword" where
  "removePassword_user u =
     \<lparr>UserWithoutPassword.id = User.id u,
      UserWithoutPassword.email = User.email u,
      UserWithoutPassword.name = User.name u,
      UserWithoutPassword.role = User.role u,
      UserWithoutPassword.isActive = User.isActive u,
      UserWithoutPassword.designation = User.designation u,
      UserWithoutPassword.department = User.department u,
      UserWithoutPassword.currentLocation = User.currentLocation u,
      UserWithoutPassword.carsUsed = User.carsUsed u,
      UserWithoutPassword.totalDistance = User.totalDistance u\<rparr>"

definition removePassword_driver :: "Driver \<Rightarrow> DriverWithoutPassword" where
  "removePassword_driver d =
     \<lparr>DriverWithoutPassword.id = Driver.id d,
      DriverWithoutPassword.email = Driver.email d,
      DriverWithoutPassword.name = Driver.name d,
      DriverWithoutPassword.role = Driver.role d,
      DriverWithoutPassword.isActive = Driver.isActive d,
      DriverWithoutPassword.dob = Driver.dob d,
      DriverWithoutPassword.licenseNo = Driver.licenseNo d,
      DriverWithoutPassword.licenseExpiry = Driver.licenseExpiry d,
      DriverWithoutPassword.onLeave = Driver.onLeave d,
      DriverWithoutPassword.salary = Driver.salary d,
      DriverWithoutPassword.totalLeave = Driver.totalLeave d,
      DriverWithoutPassword.remainingLeave = Driver.remainingLeave d,
      DriverWithoutPassword.currentLocation = Driver.currentLocation d,
      DriverWithoutPassword.totalTravelledDistance = Driver.totalTravelledDistance d\<rparr>"

definition data_GET :: "World \<Rightarrow> SanitizedData NextResponse" where
  "data_GET w =
    (case fileContents w of
       None \<Rightarrow> ErrorJson 500 ''Failed to fetch data''
     | Some data \<Rightarrow>
         OkJson None
           (Some \<lparr>SanitizedData.users = map removePassword_user (users data),
                  SanitizedData.drivers = map removePassword_driver (drivers data),
                  SanitizedData.cars = cars data,
                  SanitizedData.locations = locations data,
                  SanitizedData.journeys = journeys data,
                  SanitizedData.leaveRequests = leaveRequests data,
                  SanitizedData.systemStats = systemStats data\<rparr>))"

text \<open>Putting a password back into a sanitized entity, to compare it with the stored one.\<close>

definition withPassword_user :: "string \<Rightarrow> UserWithoutPassword \<Rightarrow> User" where
  "withPassword_user p u =
     \<lparr>User.id = UserWithoutPassword.id u,
      User.email = UserWithoutPassword.email u,
      User.password = p,
      User.name = UserWithoutPassword.name u,
      User.role = UserWithoutPassword.role u,
      User.isActive = UserWithoutPassword.isActive u,
      User.designation = UserWithoutPassword.designation u,
      User.department = UserWithoutPassword.department u,
      User.currentLocation = UserWithoutPassword.currentLocation u,
      User.carsUsed = UserWithoutPassword.carsUsed u,
      User.totalDistance = UserWithoutPassword.totalDistance u\<rparr>"

definition withPassword_driver :: "string \<Rightarrow> DriverWithoutPassword \<Rightarrow> Driver" where
  "withPassword_driver p d =
     \<lparr>Driver.id = DriverWithoutPassword.id d,
      Driver.email = DriverWithoutPassword.email d,
      Driver.password = p,
      Driver.name = DriverWithoutPassword.name d,
      Driver.role = DriverWithoutPassword.role d,
      Driver.isActive = DriverWithoutPassword.isActive d,
      Driver.dob = DriverWithoutPassword.dob d,
      Driver.licenseNo = DriverWithoutPassword.licenseNo d,
      Driver.licenseExpiry = DriverWithoutPassword.licenseExpiry d,
      Driver.onLeave = DriverWithoutPassword.onLeave d,
      Driver.salary = DriverWithoutPassword.salary d,
      Driver.totalLeave = DriverWithoutPassword.totalLeave d,
      Driver.remainingLeave = DriverWithoutPassword.remainingLeave d,
      Driver.currentLocation = DriverWithoutPassword.currentLocation d,
      Driver.totalTravelledDistance = DriverWithoutPassword.totalTravelledDistance d\<rparr>"

section \<open>Sequences of calls and the journey state machine\<close>

text \<open>
  One call of a handler that writes journeys, with everything it reads from outside:
  whether the disk accepts the write, the parsed body, the clock. These are all the
  handlers of the repository that assign to a journey's status: request, the two
  assignment routes, cancel, drop-off, route change and the two drivers' handlers.
\<close>

datatype Call =
    RequestCall bool "JourneyRequest option" nat string
  | AssignCall bool "AssignJourneyRequest option"
  | PutAssignCall bool "AssignJourneyRequest option"
  | CancelCall bool "CancelRequest option" string
  | DropoffCall bool "DropoffRequest option" string
  | RouteChangeCall bool "RouteChangeRequest option" string
  | DriverStatusCall bool "UpdateJourneyStatusRequest option" string
  | DriverActionCall bool "UpdateJourneyStatusAction option" string

fun handle :: "Call \<Rightarrow> World \<Rightarrow> World" where
  "handle (RequestCall disk_ok body now_ms now_iso) w =
     snd (journeys_request_POST disk_ok body now_ms now_iso w)"
| "handle (AssignCall disk_ok body) w = snd (admin_assign_POST disk_ok body w)"
| "handle (PutAssignCall disk_ok body) w = snd (journeys_assign_PUT disk_ok body w)"
| "handle (CancelCall disk_ok body now_iso) w = snd (journeys_cancel_POST disk_ok body now_iso w)"
| "handle (DropoffCall disk_ok body now_iso) w = snd (journeys_dropoff_POST disk_ok body now_iso w)"
| "handle (RouteChangeCall disk_ok body now_iso) w =
     snd (journeys_route_change_POST disk_ok body now_iso w)"
| "handle (DriverStatusCall disk_ok body now_iso) w =
     snd (driver_journey_status_POST disk_ok body now_iso w)"
| "handle (DriverActionCall disk_ok body now_iso) w =
     snd (driver_POST_update_journey_status disk_ok body now_iso w)"

fun handle_all :: "Call list \<Rightarrow> World \<Rightarrow> World" where
  "handle_all [] w = w"
| "handle_all (c # cs) w = handle_all cs (handle c w)"

text \<open>The calls whose handler tests the journey's old status before it writes a new one.\<close>

fun guarded :: "Call \<Rightarrow> bool" where
  "guarded (PutAssignCall disk_ok body) = False"
| "guarded (DriverStatusCall disk_ok body now_iso) = False"
| "guarded (DriverActionCall disk_ok body now_iso) = False"
| "guarded c = True"

text \<open>The journeys a handler sees in a world.\<close>

definition stored_journeys :: "World \<Rightarrow> Journey list" where
  "stored_journeys w = journeys (readData w)"

text \<open>Their statuses, journey by journey.\<close>

definition statuses :: "World \<Rightarrow> JourneyStatus list" where
  "statuses w = map Journey.status (stored_journeys w)"

text \<open>
  The edges of the state machine: requested to in-progress or cancelled, in-progress to
  completed or cancelled. \<open>forward\<close> is what any number of edges can reach.
\<close>

fun transition :: "JourneyStatus \<Rightarrow> JourneyStatus \<Rightarrow> bool" where
  "transition requested t = (t = in_progress \<or> t = cancelled)"
| "transition in_progress t = (t = completed \<or> t = cancelled)"
| "transition completed t = False"
| "transition cancelled t = False"

definition forward :: "JourneyStatus \<Rightarrow> JourneyStatus \<Rightarrow> bool" where
  "forward s t = (s = t \<or> transition s t \<or> (s = requested \<and> t = completed))"

text \<open>The live count that \<open>pendingRequests\<close> is meant to hold.\<close>

definition live_pending :: "FleetData \<Rightarrow> int" where
  "live_pending d = int (length (filter (\<lambda>j. Journey.status j = requested) (journeys d)))"

text \<open>How many journeys of a user are waiting for an assignment.\<close>

definition requested_by :: "string \<Rightarrow> FleetData \<Rightarrow> nat" where
  "requested_by uid d =
     length (filter (\<lambda>j. Journey.userId j = uid \<and> Journey.status j = requested) (journeys d))"

text \<open>Reading a decimal numeral back, to tell the ids of different milliseconds apart.\<close>

definition digit_value :: "char \<Rightarrow> nat" where
  "digit_value c = (case findIndex (\<lambda>x. x = c) ''0123456789'' of Some k \<Rightarrow> k | None \<Rightarrow> 0)"

definition parse_decimal :: "string \<Rightarrow> nat" where
  "parse_decimal s = foldl (\<lambda>a c. 10 * a + digit_value c) 0 s"


section \<open>A small fleet\<close>

definition example_location :: Location where
  "example_location = \<lparr>lat = 0, lng = 0, address = ''Depot''\<rparr>"

definition example_metrics :: DistanceMetrics where
  "example_metrics = \<lparr>day = 0, month = 0, year = 0\<rparr>"

definition example_user :: User where
  "example_user =
     \<lparr>User.id = ''u1'', User.email = ''u1@fleet.test'', User.password = ''secret'',
      User.name = ''Uma'', User.role = role_user, User.isActive = True,
      User.designation = ''Engineer'', User.department = ''Ops'',
      User.currentLocation = None, User.carsUsed = [],
      User.totalDistance = example_metrics\<rparr>"

definition example_driver :: Driver where
  "example_driver =
     \<lparr>Driver.id = ''d1'', Driver.email = ''d1@fleet.test'', Driver.password = ''hidden'',
      Driver.name = ''Dev'', Driver.role = role_driver, Driver.isActive = True,
      Driver.dob = ''1990-01-01'', Driver.licenseNo = ''L-1'',
      Driver.licenseExpiry = ''2030-01-01'', Driver.onLeave = False, Driver.salary = 0,
      Driver.totalLeave = 0, Driver.remainingLeave = 0,
      Driver.currentLocation = example_location,
      Driver.totalTravelledDistance = example_metrics\<rparr>"

definition example_car :: Car where
  "example_car =
     \<lparr>Car.id = ''c1'', model = ''Sedan'', regNo = ''R-1'', Car.drivers = [], Car.users = [],
      Car.status = available, isClean = True, needsServicing = False,
      totalDistanceTravelled = example_metrics, Car.currentLocation = example_location\<rparr>"

definition example_journey :: Journey where
  "example_journey =
     \<lparr>userDesignation = None, Journey.id = ''journey-5'', Journey.carId = [],
      Journey.driverId = [], Journey.userId = ''u1'', userName = ''Uma'', driverName = [],
      carModel = [], Journey.startLocation = example_location,
      endLocation = \<lparr>lat = 0, lng = 0, address = ''Airport''\<rparr>, waypoints = [],
      Journey.status = requested, startTime = ''t0'', endTime = None, distance = 0,
      rating = None, routeChanges = [], estimatedDuration = 0\<rparr>"

definition example_stats :: SystemStats where
  "example_stats =
     \<lparr>totalUsers = 1, totalDrivers = 1, totalCars = 1, activeJourneys = 0,
      pendingRequests = 1, availableCars = 1, driversOnLeave = 0, monthlyDistance = 0\<rparr>"

definition example_data :: FleetData where
  "example_data =
     \<lparr>users = [example_user], drivers = [example_driver], cars = [example_car],
      locations = [example_location], journeys = [example_journey], leaveRequests = [],
      systemStats = example_stats\<rparr>"

definition example_world :: World where
  "example_world = \<lparr>fileContents = Some example_data, writes = []\<rparr>"

definition example_assign :: AssignJourneyRequest where
  "example_assign =
     \<lparr>AssignJourneyRequest.journeyId = ''journey-5'', AssignJourneyRequest.carId = ''c1'',
      AssignJourneyRequest.driverId = ''d1''\<rparr>"

text \<open>The same fleet after journey-5 has been assigned car c1 and driver d1.\<close>

definition example_journey_in_progress :: Journey where
  "example_journey_in_progress =
     example_journey\<lparr>Journey.carId := ''c1'', Journey.driverId := ''d1'',
       driverName := ''Dev'', carModel := ''Sedan'', Journey.status := in_progress\<rparr>"

definition example_data_in_progress :: FleetData where
  "example_data_in_progress =
     example_data\<lparr>cars := [example_car\<lparr>Car.status := in_use\<rparr>],
       journeys := [example_journey_in_progress],
       systemStats := example_stats\<lparr>pendingRequests := 0, activeJourneys := 1,
                        availableCars := 0\<rparr>\<rparr>"

definition example_world_in_progress :: World where
  "example_world_in_progress = \<lparr>fileContents = Some example_data_in_progress, writes = []\<rparr>"

definition example_request :: JourneyRequest where
  "example_request =
     \<lparr>JourneyRequest.userId = ''u1'', destination = ''Airport'',
      JourneyRequest.startLocation = Some example_location, notes' = None\<rparr>"

definition example_cancel :: CancelRequest where
  "example_cancel = \<lparr>CancelRequest.journeyId = ''journey-5'', CancelRequest.reason = None\<rparr>"

definition example_dropoff :: DropoffRequest where
  "example_dropoff = \<lparr>DropoffRequest.journeyId = ''journey-5'', DropoffRequest.reason = None\<rparr>"

definition example_route_change :: RouteChangeRequest where
  "example_route_change =
     \<lparr>RouteChangeRequest.journeyId = ''journey-5'', newWaypoint = ''Mall'',
      RouteChangeRequest.reason = None\<rparr>"

text \<open>A fleet with two users and no journey yet.\<close>

definition example_user2 :: User where
  "example_user2 = example_user\<lparr>User.id := ''u2'', User.email := ''u2@fleet.test'',
     User.name := ''Vic''\<rparr>"

definition example_data_two_users :: FleetData where
  "example_data_two_users =
     example_data\<lparr>users := [example_user, example_user2], journeys := [],
       systemStats := example_stats\<lparr>totalUsers := 2, pendingRequests := 0\<rparr>\<rparr>"

definition example_world_two_users :: World where
  "example_world_two_users = \<lparr>fileContents = Some example_data_two_users, writes = []\<rparr>"

definition example_request2 :: JourneyRequest where
  "example_request2 = example_request\<lparr>JourneyRequest.userId := ''u2''\<rparr>"


text \<open>The small fleet without its user: journey-5 still names user u1.\<close>

definition example_world_no_user :: World where
  "example_world_no_user = \<lparr>fileContents = Some (example_data\<lparr>users := []\<rparr>), writes = []\<rparr>"

text \<open>The small fleet after the drop-off: journey-5 is completed.\<close>

definition example_journey_completed :: Journey where
  "example_journey_completed =
     example_journey_in_progress\<lparr>Journey.status := completed, endTime := Some ''t1''\<rparr>"

definition example_world_completed :: World where
  "example_world_completed =
     \<lparr>fileContents = Some (example_data_in_progress
        \<lparr>journeys := [example_journey_completed],
         systemStats := example_stats\<lparr>pendingRequests := 0, activeJourneys := 0,
                          availableCars := 0\<rparr>\<rparr>),
      writes = []\<rparr>"

text \<open>Driver d1 setting journey-5 back to requested, through either drivers' handler.\<close>

definition example_driver_status :: UpdateJourneyStatusRequest where
  "example_driver_status =
     \<lparr>UpdateJourneyStatusRequest.driverId = ''d1'',
      UpdateJourneyStatusRequest.journeyId = ''journey-5'',
      UpdateJourneyStatusRequest.status = Some requested\<rparr>"

definition example_driver_action :: UpdateJourneyStatusAction where
  "example_driver_action =
     \<lparr>UpdateJourneyStatusAction.driverId = ''d1'',
      UpdateJourneyStatusAction.journeyId = ''journey-5'',
      UpdateJourneyStatusAction.status = requested\<rparr>"

text \<open>Five guarded calls, one of each kind, all about journey-5 or user u1.\<close>

definition example_calls :: "Call list" where
  "example_calls =
     [CancelCall True (Some example_cancel) ''t2'',
      AssignCall True (Some example_assign),
      DropoffCall True (Some example_dropoff) ''t3'',
      RouteChangeCall True (Some example_route_change) ''t4'',
      RequestCall True (Some example_request) 9 ''t5'']"

section \<open>Lookup lemmas\<close>

lemma findIndex_Some_iff:
  "findIndex P xs = Some i \<longleftrightarrow> i < length xs \<and> P (xs ! i) \<and> (\<forall>k<i. \<not> P (xs ! k))"
proof (induction xs arbitrary: i)
  case Nil
  then show ?case by simp
next
  case (Cons x xs)
  show ?case
  proof (cases "P x")
    case True
    then show ?thesis by (cases i) auto
  next
    case False
    show ?thesis
    proof (cases i)
      case 0
      with False show ?thesis by auto
    next
      case (Suc n)
      have "(\<forall>k<Suc n. \<not> P ((x # xs) ! k)) \<longleftrightarrow> (\<forall>k<n. \<not> P (xs ! k))"
        using False by (auto simp: less_Suc_eq_0_disj)
      with False Suc Cons.IH [of n] show ?thesis by auto
    qed
  qed
qed

lemma findIndex_None_iff: "findIndex P xs = None \<longleftrightarrow> (\<forall>x\<in>set xs. \<not> P x)"
  by (induction xs) auto

lemma find_findIndex:
  "List.find P xs = Some x \<longleftrightarrow> (\<exists>i. findIndex P xs = Some i \<and> xs ! i = x)"
  by (induction xs) auto

lemma findIndex_find: "findIndex P xs = Some i \<Longrightarrow> List.find P xs = Some (xs ! i)"
  by (simp add: find_findIndex)

lemma find_update_first:
  "findIndex P xs = Some i \<Longrightarrow> P y \<Longrightarrow> List.find P (xs[i := y]) = Some y"
proof (induction xs arbitrary: i)
  case Nil
  then show ?case by simp
next
  case (Cons x xs)
  then show ?case by (cases "P x") auto
qed

section \<open>Admin assignment\<close>

text \<open>
  C1. An assignment request carries a journey id, a car id and a driver id (all three
  present, that is non-empty, as the handler's presence check demands). When the journey
  found under the journey id has status requested, the car found under the car id has
  status available and the driver found under the driver id is not on leave, the handler
  computes one new data set \<open>d'\<close> and hands it to \<open>writeData\<close>. In \<open>d'\<close> the journey found
  under the id carries the car id, the driver id, the driver's name, the car's model and
  status in-progress, and the car found under its id has status in-use. If the disk takes
  the write, \<open>d'\<close> is the stored data and the response is the success message; if it does not,
  the stored data is the old one: journey and car are updated together or not at all.
\<close>

theorem C1_admin_assign_succeeds:
  assumes stored: "fileContents w = Some d"
    and present: "AssignJourneyRequest.journeyId req \<noteq> []" "AssignJourneyRequest.carId req \<noteq> []"
      "AssignJourneyRequest.driverId req \<noteq> []"
    and j: "List.find (\<lambda>x. Journey.id x = AssignJourneyRequest.journeyId req) (journeys d) = Some j"
      "Journey.status j = requested"
    and c: "List.find (\<lambda>x. Car.id x = AssignJourneyRequest.carId req) (cars d) = Some c"
      "Car.status c = available"
    and drv: "List.find (\<lambda>x. Driver.id x = AssignJourneyRequest.driverId req) (drivers d) = Some drv"
      "\<not> onLeave drv"
  shows "\<exists>d'. admin_assign_POST disk_ok (Some req) w =
            (if disk_ok
             then (OkJson (Some ''Car and driver assigned successfully'') None,
                   w\<lparr>fileContents := Some d', writes := writes w @ [d']\<rparr>)
             else (ErrorJson 500 ''Failed to assign car and driver'',
                   w\<lparr>writes := writes w @ [d']\<rparr>))
          \<and> List.find (\<lambda>x. Journey.id x = AssignJourneyRequest.journeyId req) (journeys d') =
              Some (j\<lparr>Journey.carId := AssignJourneyRequest.carId req,
                      Journey.driverId := AssignJourneyRequest.driverId req,
                      driverName := Driver.name drv,
                      carModel := model c,
                      Journey.status := in_progress\<rparr>)
          \<and> List.find (\<lambda>x. Car.id x = AssignJourneyRequest.carId req) (cars d') =
              Some (c\<lparr>Car.status := in_use\<rparr>)"
proof -
  from j(1) obtain ji where ji: "findIndex (\<lambda>x. Journey.id x = AssignJourneyRequest.journeyId req) (journeys d) = Some ji"
    and jat: "journeys d ! ji = j"
    by (auto simp: find_findIndex)
  from c(1) obtain ci where ci: "findIndex (\<lambda>x. Car.id x = AssignJourneyRequest.carId req) (cars d) = Some ci"
    and cat: "cars d ! ci = c"
    by (auto simp: find_findIndex)
  from ji jat have jid: "Journey.id j = AssignJourneyRequest.journeyId req" by (auto simp: findIndex_Some_iff)
  from ci cat have cid: "Car.id c = AssignJourneyRequest.carId req" by (auto simp: findIndex_Some_iff)
  define j' where "j' = j\<lparr>Journey.carId := AssignJourneyRequest.carId req,
                      Journey.driverId := AssignJourneyRequest.driverId req,
                      driverName := Driver.name drv,
                      carModel := model c,
                      Journey.status := in_progress\<rparr>"
  define cars' where "cars' = (cars d)[ci := c\<lparr>Car.status := in_use\<rparr>]"
  define journeys' where "journeys' = (journeys d)[ji := j']"
  define d' where "d' = d\<lparr>cars := cars', journeys := journeys',
     systemStats := (systemStats d)
        \<lparr>pendingRequests := int (length (filter (\<lambda>j. Journey.status j = requested) journeys')),
         activeJourneys := int (length (filter (\<lambda>j. Journey.status j = in_progress) journeys')),
         availableCars := int (length (filter (\<lambda>c. Car.status c = available) cars'))\<rparr>\<rparr>"
  have run: "admin_assign_POST disk_ok (Some req) w =
            (if disk_ok
             then (OkJson (Some ''Car and driver assigned successfully'') None,
                   w\<lparr>fileContents := Some d', writes := writes w @ [d']\<rparr>)
             else (ErrorJson 500 ''Failed to assign car and driver'',
                   w\<lparr>writes := writes w @ [d']\<rparr>))"
    using stored present j(2) c drv ji jat ci cat
    by (simp add: admin_assign_POST_def readData_def writeData_def Let_def
        d'_def cars'_def journeys'_def j'_def)
  have fj: "List.find (\<lambda>x. Journey.id x = AssignJourneyRequest.journeyId req) (journeys d') = Some j'"
    using find_update_first [OF ji, of j'] jid by (simp add: d'_def journeys'_def j'_def)
  have fc: "List.find (\<lambda>x. Car.id x = AssignJourneyRequest.carId req) (cars d') =
      Some (c\<lparr>Car.status := in_use\<rparr>)"
    using find_update_first [OF ci, of "c\<lparr>Car.status := in_use\<rparr>"] cid
    by (simp add: d'_def cars'_def)
  from run fj fc show ?thesis unfolding j'_def by blast
qed

text \<open>The theorem at the small fleet: journey-5, car c1 and driver d1, on a working disk.\<close>

theorem C1_admin_assign_succeeds_witness:
  "fileContents example_world = Some example_data
   \<and> List.find (\<lambda>x. Journey.id x = AssignJourneyRequest.journeyId example_assign)
         (journeys example_data) = Some example_journey
   \<and> Journey.status example_journey = requested
   \<and> List.find (\<lambda>x. Car.id x = AssignJourneyRequest.carId example_assign)
         (cars example_data) = Some example_car
   \<and> Car.status example_car = available
   \<and> List.find (\<lambda>x. Driver.id x = AssignJourneyRequest.driverId example_assign)
         (drivers example_data) = Some example_driver
   \<and> \<not> onLeave example_driver
   \<and> (\<exists>d'. admin_assign_POST True (Some example_assign) example_world =
            (OkJson (Some ''Car and driver assigned successfully'') None,
             example_world\<lparr>fileContents := Some d', writes := writes example_world @ [d']\<rparr>)
          \<and> List.find (\<lambda>x. Journey.id x = ''journey-5'') (journeys d') =
              Some (example_journey\<lparr>Journey.carId := ''c1'', Journey.driverId := ''d1'',
                      driverName := ''Dev'', carModel := ''Sedan'',
                      Journey.status := in_progress\<rparr>)
          \<and> List.find (\<lambda>x. Car.id x = ''c1'') (cars d') =
              Some (example_car\<lparr>Car.status := in_use\<rparr>))"
proof -
  have stored: "fileContents example_world = Some example_data"
    by (simp add: example_world_def)
  have present: "AssignJourneyRequest.journeyId example_assign \<noteq> []"
    "AssignJourneyRequest.carId example_assign \<noteq> []"
    "AssignJourneyRequest.driverId example_assign \<noteq> []"
    by (simp_all add: example_assign_def)
  have j: "List.find (\<lambda>x. Journey.id x = AssignJourneyRequest.journeyId example_assign)
         (journeys example_data) = Some example_journey"
    "Journey.status example_journey = requested"
    by (simp_all add: example_data_def example_assign_def example_journey_def)
  have c: "List.find (\<lambda>x. Car.id x = AssignJourneyRequest.carId example_assign)
         (cars example_data) = Some example_car"
    "Car.status example_car = available"
    by (simp_all add: example_data_def example_assign_def example_car_def)
  have drv: "List.find (\<lambda>x. Driver.id x = AssignJourneyRequest.driverId example_assign)
         (drivers example_data) = Some example_driver"
    "\<not> onLeave example_driver"
    by (simp_all add: example_data_def example_assign_def example_driver_def)
  have names: "AssignJourneyRequest.journeyId example_assign = ''journey-5''"
    "AssignJourneyRequest.carId example_assign = ''c1''"
    "AssignJourneyRequest.driverId example_assign = ''d1''"
    "Driver.name example_driver = ''Dev''" "model example_car = ''Sedan''"
    by (simp_all add: example_assign_def example_driver_def example_car_def)
  from C1_admin_assign_succeeds [OF stored present j c drv, of True]
  show ?thesis using stored j c drv unfolding names by simp
qed

text \<open>
  C3. When the journey found under the journey id of an assignment request has status
  requested and the car found under the car id has a status other than available, the
  handler answers 400 with the error "Car is not available" and the world is the one it
  started from: nothing is written, so journey and car are unchanged.
\<close>

theorem C3_assign_unavailable_car:
  assumes stored: "fileContents w = Some d"
    and present: "AssignJourneyRequest.journeyId req \<noteq> []" "AssignJourneyRequest.carId req \<noteq> []"
      "AssignJourneyRequest.driverId req \<noteq> []"
    and j: "List.find (\<lambda>x. Journey.id x = AssignJourneyRequest.journeyId req) (journeys d) = Some j"
      "Journey.status j = requested"
    and c: "List.find (\<lambda>x. Car.id x = AssignJourneyRequest.carId req) (cars d) = Some c"
      "Car.status c \<noteq> available"
  shows "admin_assign_POST disk_ok (Some req) w = (ErrorJson 400 ''Car is not available'', w)"
proof -
  from j(1) obtain ji where "findIndex (\<lambda>x. Journey.id x = AssignJourneyRequest.journeyId req) (journeys d) = Some ji"
    and "journeys d ! ji = j"
    by (auto simp: find_findIndex)
  with stored present j(2) c show ?thesis
    by (simp add: admin_assign_POST_def readData_def Let_def)
qed

text \<open>The theorem at the small fleet with car c1 in servicing.\<close>

theorem C3_assign_unavailable_car_witness:
  "admin_assign_POST True (Some example_assign)
     \<lparr>fileContents = Some (example_data\<lparr>cars := [example_car\<lparr>Car.status := servicing\<rparr>]\<rparr>),
      writes = []\<rparr> =
   (ErrorJson 400 ''Car is not available'',
    \<lparr>fileContents = Some (example_data\<lparr>cars := [example_car\<lparr>Car.status := servicing\<rparr>]\<rparr>),
      writes = []\<rparr>)"
  by (rule C3_assign_unavailable_car
        [where d = "example_data\<lparr>cars := [example_car\<lparr>Car.status := servicing\<rparr>]\<rparr>"
           and j = example_journey and c = "example_car\<lparr>Car.status := servicing\<rparr>"])
     (simp_all add: example_data_def example_assign_def example_journey_def example_car_def)

section \<open>Rejected requests\<close>

text \<open>
  Every early return of a handler hands back the world it was given; only the final
  \<open>writeData\<close> call touches it.
\<close>

lemma assign_error_no_write:
  "(case admin_assign_POST disk_ok body w of
      (ErrorJson c m, w') \<Rightarrow> c = 500 \<or> w' = w
    | (OkJson a b, w') \<Rightarrow> True)"
  by (simp add: admin_assign_POST_def Let_def split: option.split)

lemma request_error_no_write:
  "(case journeys_request_POST disk_ok body now_ms now_iso w of
      (ErrorJson c m, w') \<Rightarrow> c = 500 \<or> w' = w
    | (OkJson a b, w') \<Rightarrow> True)"
  by (simp add: journeys_request_POST_def Let_def split: option.split)

lemma cancel_error_no_write:
  "(case journeys_cancel_POST disk_ok body now_iso w of
      (ErrorJson c m, w') \<Rightarrow> c = 500 \<or> w' = w
    | (OkJson a b, w') \<Rightarrow> True)"
  by (simp add: journeys_cancel_POST_def Let_def split: option.split)

lemma dropoff_error_no_write:
  "(case journeys_dropoff_POST disk_ok body now_iso w of
      (ErrorJson c m, w') \<Rightarrow> c = 500 \<or> w' = w
    | (OkJson a b, w') \<Rightarrow> True)"
  by (simp add: journeys_dropoff_POST_def Let_def split: option.split)

lemma route_change_error_no_write:
  "(case journeys_route_change_POST disk_ok body now_iso w of
      (ErrorJson c m, w') \<Rightarrow> c = 500 \<or> w' = w
    | (OkJson a b, w') \<Rightarrow> True)"
  by (simp add: journeys_route_change_POST_def Let_def split: option.split)

text \<open>A body that lacks a required field is refused before the data is read.\<close>

lemma missing_field_rejected:
  "AssignJourneyRequest.journeyId a = [] \<or> AssignJourneyRequest.carId a = []
     \<or> AssignJourneyRequest.driverId a = [] \<Longrightarrow>
   admin_assign_POST disk_ok (Some a) w =
     (ErrorJson 400 ''Journey ID, Car ID, and Driver ID are required'', w)"
  "JourneyRequest.userId r = [] \<or> destination r = [] \<or> JourneyRequest.startLocation r = None \<Longrightarrow>
   journeys_request_POST disk_ok (Some r) now_ms now_iso w =
     (ErrorJson 400 ''User ID, destination, and start location are required'', w)"
  "CancelRequest.journeyId c = [] \<Longrightarrow>
   journeys_cancel_POST disk_ok (Some c) now_iso w = (ErrorJson 400 ''Journey ID is required'', w)"
  "DropoffRequest.journeyId d = [] \<Longrightarrow>
   journeys_dropoff_POST disk_ok (Some d) now_iso w = (ErrorJson 400 ''Journey ID is required'', w)"
  "RouteChangeRequest.journeyId rc = [] \<or> newWaypoint rc = [] \<Longrightarrow>
   journeys_route_change_POST disk_ok (Some rc) now_iso w =
     (ErrorJson 400 ''Journey ID and new waypoint are required'', w)"
  by (auto simp: admin_assign_POST_def journeys_request_POST_def journeys_cancel_POST_def
      journeys_dropoff_POST_def journeys_route_change_POST_def)

text \<open>
  C9. Whenever one of the five journey handlers answers with an error of status 400, 404
  or 409, the world after the call is the world before it: the file is unchanged and the
  log of \<open>writeData\<close> calls has not grown, so every such check comes before the write.
\<close>

theorem C9_error_responses_write_nothing:
  assumes "c = 400 \<or> c = 404 \<or> c = 409"
  shows "(fst (admin_assign_POST disk_ok b1 w) = ErrorJson c m
            \<longrightarrow> snd (admin_assign_POST disk_ok b1 w) = w)
       \<and> (fst (journeys_request_POST disk_ok b2 now_ms now_iso w) = ErrorJson c m
            \<longrightarrow> snd (journeys_request_POST disk_ok b2 now_ms now_iso w) = w)
       \<and> (fst (journeys_cancel_POST disk_ok b3 now_iso w) = ErrorJson c m
            \<longrightarrow> snd (journeys_cancel_POST disk_ok b3 now_iso w) = w)
       \<and> (fst (journeys_dropoff_POST disk_ok b4 now_iso w) = ErrorJson c m
            \<longrightarrow> snd (journeys_dropoff_POST disk_ok b4 now_iso w) = w)
       \<and> (fst (journeys_route_change_POST disk_ok b5 now_iso w) = ErrorJson c m
            \<longrightarrow> snd (journeys_route_change_POST disk_ok b5 now_iso w) = w)"
proof -
  from assms have c: "c \<noteq> 500" by auto
  have a: "fst (admin_assign_POST disk_ok b1 w) = ErrorJson c m
            \<longrightarrow> snd (admin_assign_POST disk_ok b1 w) = w"
    using assign_error_no_write [where disk_ok = disk_ok and body = b1 and w = w] c
    by (cases "admin_assign_POST disk_ok b1 w") auto
  have r: "fst (journeys_request_POST disk_ok b2 now_ms now_iso w) = ErrorJson c m
            \<longrightarrow> snd (journeys_request_POST disk_ok b2 now_ms now_iso w) = w"
    using request_error_no_write [where disk_ok = disk_ok and body = b2 and now_ms = now_ms
        and now_iso = now_iso and w = w] c
    by (cases "journeys_request_POST disk_ok b2 now_ms now_iso w") auto
  have x: "fst (journeys_cancel_POST disk_ok b3 now_iso w) = ErrorJson c m
            \<longrightarrow> snd (journeys_cancel_POST disk_ok b3 now_iso w) = w"
    using cancel_error_no_write [where disk_ok = disk_ok and body = b3 and now_iso = now_iso
        and w = w] c
    by (cases "journeys_cancel_POST disk_ok b3 now_iso w") auto
  have d: "fst (journeys_dropoff_POST disk_ok b4 now_iso w) = ErrorJson c m
            \<longrightarrow> snd (journeys_dropoff_POST disk_ok b4 now_iso w) = w"
    using dropoff_error_no_write [where disk_ok = disk_ok and body = b4 and now_iso = now_iso
        and w = w] c
    by (cases "journeys_dropoff_POST disk_ok b4 now_iso w") auto
  have rc: "fst (journeys_route_change_POST disk_ok b5 now_iso w) = ErrorJson c m
            \<longrightarrow> snd (journeys_route_change_POST disk_ok b5 now_iso w) = w"
    using route_change_error_no_write [where disk_ok = disk_ok and body = b5
        and now_iso = now_iso and w = w] c
    by (cases "journeys_route_change_POST disk_ok b5 now_iso w") auto
  from a r x d rc show ?thesis by blast
qed

text \<open>
  One rejected call per handler: assigning a journey already in progress (400), a second
  request of the same user (409), cancelling an unknown journey (404), drop-off and route
  change on a journey that is still requested (400).
\<close>

theorem C9_error_responses_write_nothing_witness:
  "fst (admin_assign_POST True (Some example_assign) example_world_in_progress) =
     ErrorJson 400 ''Can only assign car and driver to requested journeys''
   \<and> snd (admin_assign_POST True (Some example_assign) example_world_in_progress) =
     example_world_in_progress
   \<and> fst (journeys_request_POST True (Some example_request) 7 ''t1'' example_world) =
     ErrorJson 409 ''You already have a pending journey request''
   \<and> snd (journeys_request_POST True (Some example_request) 7 ''t1'' example_world) =
     example_world
   \<and> fst (journeys_cancel_POST True
          (Some (example_cancel\<lparr>CancelRequest.journeyId := ''journey-9''\<rparr>)) ''t1'' example_world) =
     ErrorJson 404 ''Journey not found''
   \<and> snd (journeys_cancel_POST True
          (Some (example_cancel\<lparr>CancelRequest.journeyId := ''journey-9''\<rparr>)) ''t1'' example_world) =
     example_world
   \<and> fst (journeys_dropoff_POST True (Some example_dropoff) ''t1'' example_world) =
     ErrorJson 400 ''Drop-off can only be requested for journeys in progress''
   \<and> snd (journeys_dropoff_POST True (Some example_dropoff) ''t1'' example_world) =
     example_world
   \<and> fst (journeys_route_change_POST True (Some example_route_change) ''t1'' example_world) =
     ErrorJson 400 ''Route changes can only be requested for journeys in progress''
   \<and> snd (journeys_route_change_POST True (Some example_route_change) ''t1'' example_world) =
     example_world"
proof -
  have a: "fst (admin_assign_POST True (Some example_assign) example_world_in_progress) =
     ErrorJson 400 ''Can only assign car and driver to requested journeys''"
    by (simp add: admin_assign_POST_def readData_def Let_def example_assign_def
        example_world_in_progress_def example_data_in_progress_def example_data_def
        example_journey_in_progress_def example_journey_def)
  have r: "fst (journeys_request_POST True (Some example_request) 7 ''t1'' example_world) =
     ErrorJson 409 ''You already have a pending journey request''"
    by (simp add: journeys_request_POST_def readData_def Let_def example_request_def
        example_world_def example_data_def example_journey_def example_user_def)
  have x: "fst (journeys_cancel_POST True
          (Some (example_cancel\<lparr>CancelRequest.journeyId := ''journey-9''\<rparr>)) ''t1'' example_world) =
     ErrorJson 404 ''Journey not found''"
    by (simp add: journeys_cancel_POST_def readData_def Let_def example_cancel_def
        example_world_def example_data_def example_journey_def)
  have d: "fst (journeys_dropoff_POST True (Some example_dropoff) ''t1'' example_world) =
     ErrorJson 400 ''Drop-off can only be requested for journeys in progress''"
    by (simp add: journeys_dropoff_POST_def readData_def Let_def example_dropoff_def
        example_world_def example_data_def example_journey_def)
  have rc: "fst (journeys_route_change_POST True (Some example_route_change) ''t1'' example_world) =
     ErrorJson 400 ''Route changes can only be requested for journeys in progress''"
    by (simp add: journeys_route_change_POST_def readData_def Let_def example_route_change_def
        example_world_def example_data_def example_journey_def)
  from a r x d rc
    C9_error_responses_write_nothing [of 400 True "Some example_assign" example_world_in_progress
      "''Can only assign car and driver to requested journeys''"]
    C9_error_responses_write_nothing [of 409 True _ example_world
      "''You already have a pending journey request''" "Some example_request" 7 "''t1''"]
    C9_error_responses_write_nothing [of 404 True _ example_world
      "''Journey not found''" _ _ "''t1''"
      "Some (example_cancel\<lparr>CancelRequest.journeyId := ''journey-9''\<rparr>)"]
    C9_error_responses_write_nothing [of 400 True _ example_world
      "''Drop-off can only be requested for journeys in progress''" _ _ "''t1''" _
      "Some example_dropoff"]
    C9_error_responses_write_nothing [of 400 True _ example_world
      "''Route changes can only be requested for journeys in progress''" _ _ "''t1''" _ _
      "Some example_route_change"]
  show ?thesis by simp
qed

section \<open>Route change\<close>

text \<open>
  C7. A route-change request carries a journey id and a new waypoint (both present). When
  the journey found under the id is in progress, the journey written back is the old one
  with one waypoint (the new address at coordinates 0, 0) appended to \<open>waypoints\<close> and one
  record of type \<open>waypoint_added\<close> appended to \<open>routeChanges\<close>; the earlier entries stay in
  front and the status is the same. Nothing else in the data changes. When the journey
  found has any other status, the handler answers 400 and the world is unchanged.
\<close>

theorem C7_route_change:
  assumes stored: "fileContents w = Some d"
    and present: "RouteChangeRequest.journeyId req \<noteq> []" "newWaypoint req \<noteq> []"
    and j: "List.find (\<lambda>x. Journey.id x = RouteChangeRequest.journeyId req) (journeys d) = Some j"
    and j': "j' = j\<lparr>waypoints := waypoints j @ [\<lparr>lat = 0, lng = 0, address = newWaypoint req\<rparr>],
                    routeChanges := routeChanges j @
                      [\<lparr>type = waypoint_added, timestamp = now_iso,
                        waypoint = Some \<lparr>lat = 0, lng = 0, address = newWaypoint req\<rparr>,
                        RouteChange.reason = RouteChangeRequest.reason req\<rparr>]\<rparr>"
  shows "(Journey.status j = in_progress \<longrightarrow>
           (\<exists>i. findIndex (\<lambda>x. Journey.id x = RouteChangeRequest.journeyId req) (journeys d) = Some i
              \<and> journeys_route_change_POST disk_ok (Some req) now_iso w =
                  (if disk_ok
                   then (OkJson (Some ''Route change request sent to driver successfully'') (Some j'),
                         w\<lparr>fileContents := Some (d\<lparr>journeys := (journeys d)[i := j']\<rparr>),
                           writes := writes w @ [d\<lparr>journeys := (journeys d)[i := j']\<rparr>]\<rparr>)
                   else (ErrorJson 500 ''Failed to request route change'',
                         w\<lparr>writes := writes w @ [d\<lparr>journeys := (journeys d)[i := j']\<rparr>]\<rparr>))
              \<and> List.find (\<lambda>x. Journey.id x = RouteChangeRequest.journeyId req)
                    ((journeys d)[i := j']) = Some j'
              \<and> Journey.status j' = Journey.status j))
       \<and> (Journey.status j \<noteq> in_progress \<longrightarrow>
            journeys_route_change_POST disk_ok (Some req) now_iso w =
              (ErrorJson 400 ''Route changes can only be requested for journeys in progress'', w))"
proof -
  from j obtain i
    where i: "findIndex (\<lambda>x. Journey.id x = RouteChangeRequest.journeyId req) (journeys d) = Some i"
      and at: "journeys d ! i = j"
    by (auto simp: find_findIndex)
  from i at have jid: "Journey.id j = RouteChangeRequest.journeyId req"
    by (auto simp: findIndex_Some_iff)
  have rejected: "journeys_route_change_POST disk_ok (Some req) now_iso w =
      (ErrorJson 400 ''Route changes can only be requested for journeys in progress'', w)"
    if "Journey.status j \<noteq> in_progress"
    using that stored present i at
    by (simp add: journeys_route_change_POST_def readData_def Let_def)
  have accepted: "journeys_route_change_POST disk_ok (Some req) now_iso w =
      (if disk_ok
       then (OkJson (Some ''Route change request sent to driver successfully'') (Some j'),
             w\<lparr>fileContents := Some (d\<lparr>journeys := (journeys d)[i := j']\<rparr>),
               writes := writes w @ [d\<lparr>journeys := (journeys d)[i := j']\<rparr>]\<rparr>)
       else (ErrorJson 500 ''Failed to request route change'',
             w\<lparr>writes := writes w @ [d\<lparr>journeys := (journeys d)[i := j']\<rparr>]\<rparr>))"
    if "Journey.status j = in_progress"
    using that stored present i at
    by (simp add: journeys_route_change_POST_def readData_def writeData_def Let_def j')
  have found: "List.find (\<lambda>x. Journey.id x = RouteChangeRequest.journeyId req)
      ((journeys d)[i := j']) = Some j'"
    using find_update_first [OF i, of j'] jid by (simp add: j')
  have same: "Journey.status j' = Journey.status j"
    by (simp add: j')
  from rejected accepted found same i show ?thesis by blast
qed

text \<open>The theorem at journey-5: in progress the waypoint Mall is appended, requested it is refused.\<close>

theorem C7_route_change_witness:
  "journeys_route_change_POST True (Some example_route_change) ''t1'' example_world_in_progress =
     (OkJson (Some ''Route change request sent to driver successfully'')
        (Some (example_journey_in_progress
           \<lparr>waypoints := [\<lparr>lat = 0, lng = 0, address = ''Mall''\<rparr>],
            routeChanges := [\<lparr>type = waypoint_added, timestamp = ''t1'',
               waypoint = Some \<lparr>lat = 0, lng = 0, address = ''Mall''\<rparr>,
               RouteChange.reason = None\<rparr>]\<rparr>)),
      \<lparr>fileContents = Some (example_data_in_progress
          \<lparr>journeys := [example_journey_in_progress
             \<lparr>waypoints := [\<lparr>lat = 0, lng = 0, address = ''Mall''\<rparr>],
              routeChanges := [\<lparr>type = waypoint_added, timestamp = ''t1'',
                 waypoint = Some \<lparr>lat = 0, lng = 0, address = ''Mall''\<rparr>,
                 RouteChange.reason = None\<rparr>]\<rparr>]\<rparr>),
        writes = [example_data_in_progress
          \<lparr>journeys := [example_journey_in_progress
             \<lparr>waypoints := [\<lparr>lat = 0, lng = 0, address = ''Mall''\<rparr>],
              routeChanges := [\<lparr>type = waypoint_added, timestamp = ''t1'',
                 waypoint = Some \<lparr>lat = 0, lng = 0, address = ''Mall''\<rparr>,
                 RouteChange.reason = None\<rparr>]\<rparr>]\<rparr>]\<rparr>)
   \<and> journeys_route_change_POST True (Some example_route_change) ''t1'' example_world =
       (ErrorJson 400 ''Route changes can only be requested for journeys in progress'',
        example_world)"
proof -
  have stored: "fileContents example_world_in_progress = Some example_data_in_progress"
    "fileContents example_world = Some example_data"
    by (simp_all add: example_world_in_progress_def example_world_def)
  have present: "RouteChangeRequest.journeyId example_route_change \<noteq> []"
    "newWaypoint example_route_change \<noteq> []"
    by (simp_all add: example_route_change_def)
  have found: "List.find (\<lambda>x. Journey.id x = RouteChangeRequest.journeyId example_route_change)
      (journeys example_data_in_progress) = Some example_journey_in_progress"
    "List.find (\<lambda>x. Journey.id x = RouteChangeRequest.journeyId example_route_change)
      (journeys example_data) = Some example_journey"
    by (simp_all add: example_route_change_def example_data_in_progress_def example_data_def
        example_journey_in_progress_def example_journey_def)
  have st: "Journey.status example_journey_in_progress = in_progress"
    "Journey.status example_journey \<noteq> in_progress"
    by (simp_all add: example_journey_in_progress_def example_journey_def)
  have first: "findIndex (\<lambda>x. Journey.id x = RouteChangeRequest.journeyId example_route_change)
      (journeys example_data_in_progress) = Some i \<Longrightarrow> i = 0" for i
    by (simp add: example_route_change_def example_data_in_progress_def
        example_journey_in_progress_def example_journey_def)
  have vals: "newWaypoint example_route_change = ''Mall''"
    "RouteChangeRequest.reason example_route_change = None"
    "waypoints example_journey_in_progress = []"
    "routeChanges example_journey_in_progress = []"
    "journeys example_data_in_progress = [example_journey_in_progress]"
    by (simp_all add: example_route_change_def example_journey_in_progress_def
        example_journey_def example_data_in_progress_def)
  from C7_route_change [OF stored(1) present found(1) refl,
      where now_iso = "''t1''" and disk_ok = True] st(1)
  have accepted: "journeys_route_change_POST True (Some example_route_change) ''t1''
      example_world_in_progress =
     (OkJson (Some ''Route change request sent to driver successfully'')
        (Some (example_journey_in_progress
           \<lparr>waypoints := [\<lparr>lat = 0, lng = 0, address = ''Mall''\<rparr>],
            routeChanges := [\<lparr>type = waypoint_added, timestamp = ''t1'',
               waypoint = Some \<lparr>lat = 0, lng = 0, address = ''Mall''\<rparr>,
               RouteChange.reason = None\<rparr>]\<rparr>)),
      \<lparr>fileContents = Some (example_data_in_progress
          \<lparr>journeys := [example_journey_in_progress
             \<lparr>waypoints := [\<lparr>lat = 0, lng = 0, address = ''Mall''\<rparr>],
              routeChanges := [\<lparr>type = waypoint_added, timestamp = ''t1'',
                 waypoint = Some \<lparr>lat = 0, lng = 0, address = ''Mall''\<rparr>,
                 RouteChange.reason = None\<rparr>]\<rparr>]\<rparr>),
        writes = [example_data_in_progress
          \<lparr>journeys := [example_journey_in_progress
             \<lparr>waypoints := [\<lparr>lat = 0, lng = 0, address = ''Mall''\<rparr>],
              routeChanges := [\<lparr>type = waypoint_added, timestamp = ''t1'',
                 waypoint = Some \<lparr>lat = 0, lng = 0, address = ''Mall''\<rparr>,
                 RouteChange.reason = None\<rparr>]\<rparr>]\<rparr>]\<rparr>)"
    using first by (auto simp: vals example_world_in_progress_def)
  from C7_route_change [OF stored(2) present found(2) refl,
      where now_iso = "''t1''" and disk_ok = True] st(2)
  have rejected: "journeys_route_change_POST True (Some example_route_change) ''t1'' example_world =
       (ErrorJson 400 ''Route changes can only be requested for journeys in progress'',
        example_world)"
    by simp
  from accepted rejected show ?thesis by simp
qed

section \<open>Drop-off\<close>

text \<open>
  C6, as stated, says that a drop-off changes the journey's status and end time and nothing
  else. It also lowers \<open>systemStats.activeJourneys\<close>: in the fleet with journey-5 in
  progress the counter goes from 1 to 0.
\<close>

theorem C6_dropoff_changes_stats_counterexample:
  "fst (journeys_dropoff_POST True (Some example_dropoff) ''t1'' example_world_in_progress) =
     OkJson (Some ''Drop-off request sent to driver successfully'')
       (Some (example_journey_in_progress\<lparr>Journey.status := completed, endTime := Some ''t1''\<rparr>))
   \<and> activeJourneys (systemStats (readData example_world_in_progress)) = 1
   \<and> activeJourneys (systemStats (readData
        (snd (journeys_dropoff_POST True (Some example_dropoff) ''t1''
               example_world_in_progress)))) = 0"
  by (simp add: journeys_dropoff_POST_def readData_def writeData_def Let_def truthy_def
      example_dropoff_def example_world_in_progress_def example_data_in_progress_def
      example_data_def example_journey_in_progress_def example_journey_def example_stats_def)

text \<open>
  C6, amended. A drop-off request carries a journey id (present). When the journey found
  under the id is in progress, the data handed to \<open>writeData\<close> differs from the stored one
  in exactly two places: the journey at the index found has status completed and the
  current time as end time, and \<open>systemStats.activeJourneys\<close> is lowered by one, not below
  0. Cars (so the journey's car stays in use), drivers, users, locations, leave requests
  and all other journeys are the same.
\<close>

theorem C6_dropoff_frame:
  assumes stored: "fileContents w = Some d"
    and present: "DropoffRequest.journeyId req \<noteq> []"
    and j: "List.find (\<lambda>x. Journey.id x = DropoffRequest.journeyId req) (journeys d) = Some j"
      "Journey.status j = in_progress"
    and j': "j' = j\<lparr>Journey.status := completed, endTime := Some now_iso\<rparr>"
  shows "\<exists>i d'. findIndex (\<lambda>x. Journey.id x = DropoffRequest.journeyId req) (journeys d) = Some i
          \<and> journeys_dropoff_POST disk_ok (Some req) now_iso w =
              (if disk_ok
               then (OkJson
                       (Some (if truthy (DropoffRequest.reason req)
                              then ''Drop-off requested: '' @ the (DropoffRequest.reason req)
                              else ''Drop-off request sent to driver successfully''))
                       (Some j'),
                     w\<lparr>fileContents := Some d', writes := writes w @ [d']\<rparr>)
               else (ErrorJson 500 ''Failed to request drop-off'',
                     w\<lparr>writes := writes w @ [d']\<rparr>))
          \<and> journeys d' = (journeys d)[i := j']
          \<and> systemStats d' =
              (systemStats d)\<lparr>activeJourneys := max 0 (activeJourneys (systemStats d) - 1)\<rparr>
          \<and> cars d' = cars d \<and> drivers d' = drivers d \<and> users d' = users d
          \<and> locations d' = locations d \<and> leaveRequests d' = leaveRequests d"
proof -
  from j(1) obtain i
    where i: "findIndex (\<lambda>x. Journey.id x = DropoffRequest.journeyId req) (journeys d) = Some i"
      and at: "journeys d ! i = j"
    by (auto simp: find_findIndex)
  define d' where "d' = d\<lparr>journeys := (journeys d)[i := j'],
     systemStats := (systemStats d)
       \<lparr>activeJourneys := max 0 (activeJourneys (systemStats d) - 1)\<rparr>\<rparr>"
  have run: "journeys_dropoff_POST disk_ok (Some req) now_iso w =
      (if disk_ok
       then (OkJson
               (Some (if truthy (DropoffRequest.reason req)
                      then ''Drop-off requested: '' @ the (DropoffRequest.reason req)
                      else ''Drop-off request sent to driver successfully''))
               (Some j'),
             w\<lparr>fileContents := Some d', writes := writes w @ [d']\<rparr>)
       else (ErrorJson 500 ''Failed to request drop-off'',
             w\<lparr>writes := writes w @ [d']\<rparr>))"
    using stored present j(2) i at
    by (simp add: journeys_dropoff_POST_def readData_def writeData_def Let_def j' d'_def)
  have frame: "journeys d' = (journeys d)[i := j']"
    "systemStats d' =
       (systemStats d)\<lparr>activeJourneys := max 0 (activeJourneys (systemStats d) - 1)\<rparr>"
    "cars d' = cars d" "drivers d' = drivers d" "users d' = users d"
    "locations d' = locations d" "leaveRequests d' = leaveRequests d"
    by (simp_all add: d'_def)
  from i run frame show ?thesis by blast
qed

text \<open>The theorem at journey-5 in progress: car c1 is still in use after the drop-off.\<close>

theorem C6_dropoff_frame_witness:
  "\<exists>i d'. findIndex (\<lambda>x. Journey.id x = ''journey-5'') (journeys example_data_in_progress) = Some i
     \<and> journeys_dropoff_POST True (Some example_dropoff) ''t1'' example_world_in_progress =
         (OkJson (Some ''Drop-off request sent to driver successfully'')
            (Some (example_journey_in_progress
               \<lparr>Journey.status := completed, endTime := Some ''t1''\<rparr>)),
          example_world_in_progress\<lparr>fileContents := Some d', writes := [d']\<rparr>)
     \<and> journeys d' = (journeys example_data_in_progress)
          [i := example_journey_in_progress\<lparr>Journey.status := completed, endTime := Some ''t1''\<rparr>]
     \<and> activeJourneys (systemStats d') = 0
     \<and> cars d' = [example_car\<lparr>Car.status := in_use\<rparr>]"
proof -
  have stored: "fileContents example_world_in_progress = Some example_data_in_progress"
    by (simp add: example_world_in_progress_def)
  have present: "DropoffRequest.journeyId example_dropoff \<noteq> []"
    by (simp add: example_dropoff_def)
  have found: "List.find (\<lambda>x. Journey.id x = DropoffRequest.journeyId example_dropoff)
      (journeys example_data_in_progress) = Some example_journey_in_progress"
    "Journey.status example_journey_in_progress = in_progress"
    by (simp_all add: example_dropoff_def example_data_in_progress_def
        example_journey_in_progress_def example_journey_def)
  have vals: "DropoffRequest.journeyId example_dropoff = ''journey-5''"
    "truthy (DropoffRequest.reason example_dropoff) = False"
    "writes example_world_in_progress = []"
    "activeJourneys (systemStats example_data_in_progress) = 1"
    "cars example_data_in_progress = [example_car\<lparr>Car.status := in_use\<rparr>]"
    by (simp_all add: example_dropoff_def truthy_def example_world_in_progress_def
        example_data_in_progress_def)
  from C6_dropoff_frame [OF stored present found refl, where now_iso = "''t1''" and disk_ok = True]
  obtain i d' where
    "findIndex (\<lambda>x. Journey.id x = ''journey-5'') (journeys example_data_in_progress) = Some i"
    "journeys_dropoff_POST True (Some example_dropoff) ''t1'' example_world_in_progress =
         (OkJson (Some ''Drop-off request sent to driver successfully'')
            (Some (example_journey_in_progress
               \<lparr>Journey.status := completed, endTime := Some ''t1''\<rparr>)),
          example_world_in_progress\<lparr>fileContents := Some d', writes := [d']\<rparr>)"
    "journeys d' = (journeys example_data_in_progress)
          [i := example_journey_in_progress\<lparr>Journey.status := completed, endTime := Some ''t1''\<rparr>]"
    "activeJourneys (systemStats d') = 0"
    "cars d' = [example_car\<lparr>Car.status := in_use\<rparr>]"
    unfolding vals by auto
  then show ?thesis by blast
qed

section \<open>Journey ids\<close>

text \<open>
  The decimal rendering can be read back, so different millisecond counts give different
  strings.
\<close>

lemma digit_value_table:
  "\<forall>k\<in>set [0..<10]. digit_value (''0123456789'' ! k) = k"
  by code_simp

lemma digit_value_nth: "k < 10 \<Longrightarrow> digit_value (''0123456789'' ! k) = k"
  using digit_value_table by (simp del: upt_conv_Cons upt_Suc)

lemma parse_decimal_snoc: "parse_decimal (s @ [c]) = 10 * parse_decimal s + digit_value c"
  by (simp add: parse_decimal_def)

lemma parse_decimal_number_toString: "parse_decimal (number_toString n) = n"
proof (induction n rule: number_toString.induct)
  case (1 n)
  show ?case
  proof (cases "n < 10")
    case True
    then have "number_toString n = [''0123456789'' ! n]"
      by (subst number_toString.simps) simp
    then have "parse_decimal (number_toString n) = digit_value (''0123456789'' ! n)"
      by (simp add: parse_decimal_def)
    with True show ?thesis by (simp only: digit_value_nth)
  next
    case False
    then have "number_toString n = number_toString (n div 10) @ [''0123456789'' ! (n mod 10)]"
      by (subst number_toString.simps) simp
    then have step: "parse_decimal (number_toString n) =
        10 * parse_decimal (number_toString (n div 10)) + digit_value (''0123456789'' ! (n mod 10))"
      by (simp only: parse_decimal_snoc)
    have hyp: "parse_decimal (number_toString (n div 10)) = n div 10"
      using False by (rule "1.IH")
    have "n mod 10 < 10" by simp
    then have last: "digit_value (''0123456789'' ! (n mod 10)) = n mod 10"
      by (rule digit_value_nth)
    have "parse_decimal (number_toString n) = 10 * (n div 10) + n mod 10"
      unfolding step hyp last ..
    then show ?thesis by presburger
  qed
qed

lemma number_toString_inj: "number_toString a = number_toString b \<Longrightarrow> a = b"
  by (metis parse_decimal_number_toString)

lemma request_created_id:
  "(case journeys_request_POST disk_ok body now_ms now_iso w of
      (OkJson m (Some nj), w') \<Rightarrow> Journey.id nj = ''journey-'' @ number_toString now_ms
    | (OkJson m None, w') \<Rightarrow> False
    | (ErrorJson c m, w') \<Rightarrow> True)"
  by (simp add: journeys_request_POST_def Let_def split: option.split)

lemma example_first_request:
  "journeys_request_POST True (Some example_request) n ''t1'' example_world_two_users =
     (OkJson (Some ''Journey request submitted successfully. Waiting for admin allocation.'')
        (Some (example_journey\<lparr>Journey.id := ''journey-'' @ number_toString n,
                 startTime := ''t1''\<rparr>)),
      \<lparr>fileContents = Some (example_data_two_users
          \<lparr>journeys := [example_journey\<lparr>Journey.id := ''journey-'' @ number_toString n,
                          startTime := ''t1''\<rparr>],
           systemStats := example_stats\<lparr>totalUsers := 2, pendingRequests := 1\<rparr>\<rparr>),
        writes = [example_data_two_users
          \<lparr>journeys := [example_journey\<lparr>Journey.id := ''journey-'' @ number_toString n,
                          startTime := ''t1''\<rparr>],
           systemStats := example_stats\<lparr>totalUsers := 2, pendingRequests := 1\<rparr>\<rparr>]\<rparr>)"
  by (simp add: journeys_request_POST_def readData_def writeData_def Let_def
      example_request_def example_world_two_users_def example_data_two_users_def
      example_data_def example_user_def example_user2_def example_journey_def
      example_stats_def example_location_def)

lemma example_second_request:
  "journeys_request_POST True (Some example_request2) 7 ''t1''
     (snd (journeys_request_POST True (Some example_request) 7 ''t1'' example_world_two_users)) =
     (OkJson (Some ''Journey request submitted successfully. Waiting for admin allocation.'')
        (Some (example_journey\<lparr>Journey.id := ''journey-'' @ number_toString 7,
                 Journey.userId := ''u2'', userName := ''Vic'', startTime := ''t1''\<rparr>)),
      \<lparr>fileContents = Some (example_data_two_users
          \<lparr>journeys := [example_journey\<lparr>Journey.id := ''journey-'' @ number_toString 7,
                          startTime := ''t1''\<rparr>,
                        example_journey\<lparr>Journey.id := ''journey-'' @ number_toString 7,
                          Journey.userId := ''u2'', userName := ''Vic'', startTime := ''t1''\<rparr>],
           systemStats := example_stats\<lparr>totalUsers := 2, pendingRequests := 2\<rparr>\<rparr>),
        writes = [example_data_two_users
          \<lparr>journeys := [example_journey\<lparr>Journey.id := ''journey-'' @ number_toString 7,
                          startTime := ''t1''\<rparr>],
           systemStats := example_stats\<lparr>totalUsers := 2, pendingRequests := 1\<rparr>\<rparr>,
          example_data_two_users
          \<lparr>journeys := [example_journey\<lparr>Journey.id := ''journey-'' @ number_toString 7,
                          startTime := ''t1''\<rparr>,
                        example_journey\<lparr>Journey.id := ''journey-'' @ number_toString 7,
                          Journey.userId := ''u2'', userName := ''Vic'', startTime := ''t1''\<rparr>],
           systemStats := example_stats\<lparr>totalUsers := 2, pendingRequests := 2\<rparr>\<rparr>]\<rparr>)"
  unfolding example_first_request [of 7]
  by (simp add: journeys_request_POST_def readData_def writeData_def Let_def
      example_request_def example_request2_def example_data_two_users_def
      example_data_def example_user_def example_user2_def example_journey_def
      example_stats_def example_location_def)

text \<open>
  C10. The id of a journey that the request handler creates is the string "journey-"
  followed by the decimal millisecond count of the clock, whatever the request, the stored
  data and the disk are. So two journeys created at different millisecond counts have
  different ids, and two requests (of different users) served at the same millisecond
  create two stored journeys with the same id.
\<close>

theorem C10_journey_id:
  "(journeys_request_POST disk_ok body now_ms now_iso w = (OkJson m (Some nj), w')
      \<longrightarrow> Journey.id nj = ''journey-'' @ number_toString now_ms)
   \<and> (journeys_request_POST disk_ok1 body1 ms1 iso1 w1 = (OkJson m1 (Some nj1), w1')
        \<and> journeys_request_POST disk_ok2 body2 ms2 iso2 w2 = (OkJson m2 (Some nj2), w2')
        \<and> ms1 \<noteq> ms2
      \<longrightarrow> Journey.id nj1 \<noteq> Journey.id nj2)
   \<and> (\<exists>w0 r1 r2 ms t a1 a2 j1 j2 v1 v2.
         JourneyRequest.userId r1 \<noteq> JourneyRequest.userId r2
         \<and> journeys_request_POST True (Some r1) ms t w0 = (OkJson a1 (Some j1), v1)
         \<and> journeys_request_POST True (Some r2) ms t v1 = (OkJson a2 (Some j2), v2)
         \<and> Journey.id j1 = Journey.id j2
         \<and> stored_journeys v2 = stored_journeys w0 @ [j1, j2])"
proof (intro conjI)
  show "journeys_request_POST disk_ok body now_ms now_iso w = (OkJson m (Some nj), w')
      \<longrightarrow> Journey.id nj = ''journey-'' @ number_toString now_ms"
    using request_created_id [where disk_ok = disk_ok and body = body and now_ms = now_ms
        and now_iso = now_iso and w = w]
    by auto
  show "journeys_request_POST disk_ok1 body1 ms1 iso1 w1 = (OkJson m1 (Some nj1), w1')
        \<and> journeys_request_POST disk_ok2 body2 ms2 iso2 w2 = (OkJson m2 (Some nj2), w2')
        \<and> ms1 \<noteq> ms2
      \<longrightarrow> Journey.id nj1 \<noteq> Journey.id nj2"
    using request_created_id [where disk_ok = disk_ok1 and body = body1 and now_ms = ms1
        and now_iso = iso1 and w = w1]
      request_created_id [where disk_ok = disk_ok2 and body = body2 and now_ms = ms2
        and now_iso = iso2 and w = w2]
      number_toString_inj [of ms1 ms2]
    by auto
  have "JourneyRequest.userId example_request \<noteq> JourneyRequest.userId example_request2"
    by (simp add: example_request_def example_request2_def)
  moreover note example_first_request [of 7]
  moreover have "journeys_request_POST True (Some example_request2) 7 ''t1''
     \<lparr>fileContents = Some (example_data_two_users
          \<lparr>journeys := [example_journey\<lparr>Journey.id := ''journey-'' @ number_toString 7,
                          startTime := ''t1''\<rparr>],
           systemStats := example_stats\<lparr>totalUsers := 2, pendingRequests := 1\<rparr>\<rparr>),
        writes = [example_data_two_users
          \<lparr>journeys := [example_journey\<lparr>Journey.id := ''journey-'' @ number_toString 7,
                          startTime := ''t1''\<rparr>],
           systemStats := example_stats\<lparr>totalUsers := 2, pendingRequests := 1\<rparr>\<rparr>]\<rparr> =
     (OkJson (Some ''Journey request submitted successfully. Waiting for admin allocation.'')
        (Some (example_journey\<lparr>Journey.id := ''journey-'' @ number_toString 7,
                 Journey.userId := ''u2'', userName := ''Vic'', startTime := ''t1''\<rparr>)),
      \<lparr>fileContents = Some (example_data_two_users
          \<lparr>journeys := [example_journey\<lparr>Journey.id := ''journey-'' @ number_toString 7,
                          startTime := ''t1''\<rparr>,
                        example_journey\<lparr>Journey.id := ''journey-'' @ number_toString 7,
                          Journey.userId := ''u2'', userName := ''Vic'', startTime := ''t1''\<rparr>],
           systemStats := example_stats\<lparr>totalUsers := 2, pendingRequests := 2\<rparr>\<rparr>),
        writes = [example_data_two_users
          \<lparr>journeys := [example_journey\<lparr>Journey.id := ''journey-'' @ number_toString 7,
                          startTime := ''t1''\<rparr>],
           systemStats := example_stats\<lparr>totalUsers := 2, pendingRequests := 1\<rparr>\<rparr>,
          example_data_two_users
          \<lparr>journeys := [example_journey\<lparr>Journey.id := ''journey-'' @ number_toString 7,
                          startTime := ''t1''\<rparr>,
                        example_journey\<lparr>Journey.id := ''journey-'' @ number_toString 7,
                          Journey.userId := ''u2'', userName := ''Vic'', startTime := ''t1''\<rparr>],
           systemStats := example_stats\<lparr>totalUsers := 2, pendingRequests := 2\<rparr>\<rparr>]\<rparr>)"
    using example_second_request unfolding example_first_request [of 7] by simp
  moreover have "Journey.id (example_journey\<lparr>Journey.id := ''journey-'' @ number_toString 7,
                          startTime := ''t1''\<rparr>) =
     Journey.id (example_journey\<lparr>Journey.id := ''journey-'' @ number_toString 7,
                          Journey.userId := ''u2'', userName := ''Vic'', startTime := ''t1''\<rparr>)"
    by simp
  moreover have "stored_journeys \<lparr>fileContents = Some (example_data_two_users
          \<lparr>journeys := [example_journey\<lparr>Journey.id := ''journey-'' @ number_toString 7,
                          startTime := ''t1''\<rparr>,
                        example_journey\<lparr>Journey.id := ''journey-'' @ number_toString 7,
                          Journey.userId := ''u2'', userName := ''Vic'', startTime := ''t1''\<rparr>],
           systemStats := example_stats\<lparr>totalUsers := 2, pendingRequests := 2\<rparr>\<rparr>),
        writes = [example_data_two_users
          \<lparr>journeys := [example_journey\<lparr>Journey.id := ''journey-'' @ number_toString 7,
                          startTime := ''t1''\<rparr>],
           systemStats := example_stats\<lparr>totalUsers := 2, pendingRequests := 1\<rparr>\<rparr>,
          example_data_two_users
          \<lparr>journeys := [example_journey\<lparr>Journey.id := ''journey-'' @ number_toString 7,
                          startTime := ''t1''\<rparr>,
                        example_journey\<lparr>Journey.id := ''journey-'' @ number_toString 7,
                          Journey.userId := ''u2'', userName := ''Vic'', startTime := ''t1''\<rparr>],
           systemStats := example_stats\<lparr>totalUsers := 2, pendingRequests := 2\<rparr>\<rparr>]\<rparr> =
     stored_journeys example_world_two_users @
       [example_journey\<lparr>Journey.id := ''journey-'' @ number_toString 7, startTime := ''t1''\<rparr>,
        example_journey\<lparr>Journey.id := ''journey-'' @ number_toString 7,
          Journey.userId := ''u2'', userName := ''Vic'', startTime := ''t1''\<rparr>]"
    by (simp add: stored_journeys_def readData_def example_world_two_users_def
        example_data_two_users_def)
  ultimately show "\<exists>w0 r1 r2 ms t a1 a2 j1 j2 v1 v2.
         JourneyRequest.userId r1 \<noteq> JourneyRequest.userId r2
         \<and> journeys_request_POST True (Some r1) ms t w0 = (OkJson a1 (Some j1), v1)
         \<and> journeys_request_POST True (Some r2) ms t v1 = (OkJson a2 (Some j2), v2)
         \<and> Journey.id j1 = Journey.id j2
         \<and> stored_journeys v2 = stored_journeys w0 @ [j1, j2]"
    by blast
qed

text \<open>
  The theorem at the two-user fleet: the journey created at millisecond 7 has the id
  "journey-7", and the one created at millisecond 8 has another id.
\<close>

theorem C10_journey_id_witness:
  "(\<exists>m nj w'. journeys_request_POST True (Some example_request) 7 ''t1''
        example_world_two_users = (OkJson m (Some nj), w')
      \<and> Journey.id nj = ''journey-7'')
   \<and> (\<exists>m1 nj1 w1' m2 nj2 w2'.
         journeys_request_POST True (Some example_request) 7 ''t1''
           example_world_two_users = (OkJson m1 (Some nj1), w1')
       \<and> journeys_request_POST True (Some example_request) 8 ''t1''
           example_world_two_users = (OkJson m2 (Some nj2), w2')
       \<and> Journey.id nj1 \<noteq> Journey.id nj2)"
proof -
  have seven: "number_toString 7 = ''7''"
    by (simp add: number_toString.simps [of 7])
  note at7 = example_first_request [of 7]
  note at8 = example_first_request [of 8]
  from C10_journey_id [THEN conjunct1, rule_format, OF at7]
  have "Journey.id (example_journey\<lparr>Journey.id := ''journey-'' @ number_toString 7,
      startTime := ''t1''\<rparr>) = ''journey-7''"
    by (simp add: seven)
  with at7 have first: "\<exists>m nj w'. journeys_request_POST True (Some example_request) 7 ''t1''
        example_world_two_users = (OkJson m (Some nj), w')
      \<and> Journey.id nj = ''journey-7''"
    by blast
  have "(7::nat) \<noteq> 8" by simp
  with C10_journey_id [THEN conjunct2, THEN conjunct1, rule_format, OF conjI, OF at7 conjI, OF at8]
  have "Journey.id (example_journey\<lparr>Journey.id := ''journey-'' @ number_toString 7,
      startTime := ''t1''\<rparr>) \<noteq>
    Journey.id (example_journey\<lparr>Journey.id := ''journey-'' @ number_toString 8,
      startTime := ''t1''\<rparr>)"
    by blast
  with at7 at8 have second: "\<exists>m1 nj1 w1' m2 nj2 w2'.
         journeys_request_POST True (Some example_request) 7 ''t1''
           example_world_two_users = (OkJson m1 (Some nj1), w1')
       \<and> journeys_request_POST True (Some example_request) 8 ''t1''
           example_world_two_users = (OkJson m2 (Some nj2), w2')
       \<and> Journey.id nj1 \<noteq> Journey.id nj2"
    by blast
  from first second show ?thesis by blast
qed

section \<open>The sanitized snapshot\<close>

lemma withPassword_removePassword_user:
  "withPassword_user (User.password u) (removePassword_user u) = u"
  by (simp add: withPassword_user_def removePassword_user_def)

lemma withPassword_removePassword_driver:
  "withPassword_driver (Driver.password d) (removePassword_driver d) = d"
  by (simp add: withPassword_driver_def removePassword_driver_def)

text \<open>
  C8. When the data file can be read, GET /api/data answers with a snapshot whose users
  and drivers are the stored ones, in order, each without its password and with every
  other field as stored (putting the stored password back gives the stored entity), and
  whose cars, locations, journeys, leave requests and system stats are the stored ones.
\<close>

theorem C8_data_GET_sanitized_snapshot:
  assumes "fileContents w = Some d"
  shows "\<exists>s. data_GET w = OkJson None (Some s)
          \<and> length (SanitizedData.users s) = length (users d)
          \<and> (\<forall>i<length (users d).
                withPassword_user (User.password (users d ! i)) (SanitizedData.users s ! i) =
                  users d ! i)
          \<and> length (SanitizedData.drivers s) = length (drivers d)
          \<and> (\<forall>i<length (drivers d).
                withPassword_driver (Driver.password (drivers d ! i))
                  (SanitizedData.drivers s ! i) = drivers d ! i)
          \<and> SanitizedData.cars s = cars d
          \<and> SanitizedData.locations s = locations d
          \<and> SanitizedData.journeys s = journeys d
          \<and> SanitizedData.leaveRequests s = leaveRequests d
          \<and> SanitizedData.systemStats s = systemStats d"
  using assms
  by (simp add: data_GET_def withPassword_removePassword_user
      withPassword_removePassword_driver)

text \<open>The theorem at the small fleet.\<close>

theorem C8_data_GET_sanitized_snapshot_witness:
  "\<exists>s. data_GET example_world = OkJson None (Some s)
     \<and> SanitizedData.users s = [removePassword_user example_user]
     \<and> withPassword_user ''secret'' (SanitizedData.users s ! 0) = example_user
     \<and> withPassword_driver ''hidden'' (SanitizedData.drivers s ! 0) = example_driver
     \<and> SanitizedData.cars s = [example_car]
     \<and> SanitizedData.journeys s = [example_journey]
     \<and> SanitizedData.systemStats s = example_stats"
proof -
  have stored: "fileContents example_world = Some example_data"
    by (simp add: example_world_def)
  from C8_data_GET_sanitized_snapshot [OF stored] obtain s where
    s: "data_GET example_world = OkJson None (Some s)"
      "\<forall>i<length (users example_data).
          withPassword_user (User.password (users example_data ! i)) (SanitizedData.users s ! i) =
            users example_data ! i"
      "\<forall>i<length (drivers example_data).
          withPassword_driver (Driver.password (drivers example_data ! i))
            (SanitizedData.drivers s ! i) = drivers example_data ! i"
      "SanitizedData.cars s = cars example_data"
      "SanitizedData.journeys s = journeys example_data"
      "SanitizedData.systemStats s = systemStats example_data"
    by blast
  from s(1) have "SanitizedData.users s = [removePassword_user example_user]"
    by (auto simp: data_GET_def example_world_def example_data_def)
  moreover from s(2) have "withPassword_user ''secret'' (SanitizedData.users s ! 0) = example_user"
    by (simp add: example_data_def example_user_def)
  moreover from s(3) have "withPassword_driver ''hidden'' (SanitizedData.drivers s ! 0) = example_driver"
    by (simp add: example_data_def example_driver_def)
  moreover from s(4,5,6) have "SanitizedData.cars s = [example_car]"
    "SanitizedData.journeys s = [example_journey]" "SanitizedData.systemStats s = example_stats"
    by (simp_all add: example_data_def)
  ultimately show ?thesis using s(1) by blast
qed

section \<open>What a call does to the stored data\<close>

text \<open>
  One lemma per handler, for a parsed body: an error response leaves the data as a later
  read sees it unchanged; a success response comes with exactly the stated change of the
  journey statuses and of \<open>pendingRequests\<close>.
\<close>

lemma readData_after_failed_write: "readData (writes_update f w) = readData w"
  by (simp add: readData_def)

lemma readData_after_write: "readData (fileContents_update (\<lambda>_. Some d) w) = d"
  by (simp add: readData_def)

lemma request_shape:
  "(case journeys_request_POST disk_ok (Some req) now_ms now_iso w of
      (ErrorJson c m, w') \<Rightarrow> readData w' = readData w
    | (OkJson a b, w') \<Rightarrow>
        List.find (\<lambda>j. Journey.userId j = JourneyRequest.userId req
                      \<and> Journey.status j = requested) (journeys (readData w)) = None
        \<and> (\<exists>nj. b = Some nj
              \<and> Journey.userId nj = JourneyRequest.userId req
              \<and> Journey.status nj = requested
              \<and> readData w' = (readData w)
                   \<lparr>journeys := journeys (readData w) @ [nj],
                    systemStats := (systemStats (readData w))
                      \<lparr>pendingRequests := pendingRequests (systemStats (readData w)) + 1\<rparr>\<rparr>))"
  by (simp add: journeys_request_POST_def Let_def writeData_def
      readData_after_failed_write readData_after_write split: option.split)

lemma assign_shape:
  "(case admin_assign_POST disk_ok (Some req) w of
      (ErrorJson c m, w') \<Rightarrow> readData w' = readData w
    | (OkJson a b, w') \<Rightarrow>
        (\<exists>i. findIndex (\<lambda>j. Journey.id j = AssignJourneyRequest.journeyId req)
               (journeys (readData w)) = Some i)
        \<and> (\<forall>i. findIndex (\<lambda>j. Journey.id j = AssignJourneyRequest.journeyId req)
               (journeys (readData w)) = Some i \<longrightarrow>
              Journey.status (journeys (readData w) ! i) = requested
              \<and> statuses w' = (statuses w)[i := in_progress]
              \<and> pendingRequests (systemStats (readData w')) = live_pending (readData w')))"
  by (simp add: admin_assign_POST_def Let_def writeData_def live_pending_def statuses_def
      stored_journeys_def map_update
      readData_after_failed_write readData_after_write split: option.split)

lemma cancel_shape:
  "(case journeys_cancel_POST disk_ok (Some req) now_iso w of
      (ErrorJson c m, w') \<Rightarrow> readData w' = readData w
    | (OkJson a b, w') \<Rightarrow>
        (\<exists>i. findIndex (\<lambda>j. Journey.id j = CancelRequest.journeyId req)
               (journeys (readData w)) = Some i)
        \<and> (\<forall>i. findIndex (\<lambda>j. Journey.id j = CancelRequest.journeyId req)
               (journeys (readData w)) = Some i \<longrightarrow>
              Journey.status (journeys (readData w) ! i) \<noteq> completed
              \<and> Journey.status (journeys (readData w) ! i) \<noteq> cancelled
              \<and> statuses w' = (statuses w)[i := cancelled]
              \<and> pendingRequests (systemStats (readData w')) =
                  (if Journey.status (journeys (readData w) ! i) = requested
                   then max 0 (pendingRequests (systemStats (readData w)) - 1)
                   else pendingRequests (systemStats (readData w)))))"
  by (simp add: journeys_cancel_POST_def Let_def writeData_def statuses_def
      stored_journeys_def map_update
      readData_after_failed_write readData_after_write split: option.split)

lemma dropoff_shape:
  "(case journeys_dropoff_POST disk_ok (Some req) now_iso w of
      (ErrorJson c m, w') \<Rightarrow> readData w' = readData w
    | (OkJson a b, w') \<Rightarrow>
        (\<exists>i. findIndex (\<lambda>j. Journey.id j = DropoffRequest.journeyId req)
               (journeys (readData w)) = Some i)
        \<and> (\<forall>i. findIndex (\<lambda>j. Journey.id j = DropoffRequest.journeyId req)
               (journeys (readData w)) = Some i \<longrightarrow>
              Journey.status (journeys (readData w) ! i) = in_progress
              \<and> statuses w' = (statuses w)[i := completed]
              \<and> pendingRequests (systemStats (readData w')) =
                  pendingRequests (systemStats (readData w))))"
  by (simp add: journeys_dropoff_POST_def Let_def writeData_def statuses_def
      stored_journeys_def map_update
      readData_after_failed_write readData_after_write split: option.split)

lemma route_change_shape:
  "(case journeys_route_change_POST disk_ok (Some req) now_iso w of
      (ErrorJson c m, w') \<Rightarrow> readData w' = readData w
    | (OkJson a b, w') \<Rightarrow>
        (\<exists>i. findIndex (\<lambda>j. Journey.id j = RouteChangeRequest.journeyId req)
               (journeys (readData w)) = Some i)
        \<and> (\<forall>i. findIndex (\<lambda>j. Journey.id j = RouteChangeRequest.journeyId req)
               (journeys (readData w)) = Some i \<longrightarrow>
              Journey.status (journeys (readData w) ! i) = in_progress
              \<and> statuses w' = (statuses w)[i := in_progress]))"
  by (simp add: journeys_route_change_POST_def Let_def writeData_def statuses_def
      stored_journeys_def map_update
      readData_after_failed_write readData_after_write split: option.split)

lemma absent_body:
  "admin_assign_POST disk_ok None w = (ErrorJson 400 ''Invalid JSON in request body'', w)"
  "journeys_request_POST disk_ok None now_ms now_iso w =
     (ErrorJson 400 ''Invalid JSON in request body'', w)"
  "journeys_cancel_POST disk_ok None now_iso w =
     (ErrorJson 400 ''Invalid JSON in request body'', w)"
  "journeys_dropoff_POST disk_ok None now_iso w =
     (ErrorJson 400 ''Invalid JSON in request body'', w)"
  "journeys_route_change_POST disk_ok None now_iso w =
     (ErrorJson 400 ''Invalid JSON in request body'', w)"
  by (simp_all add: admin_assign_POST_def journeys_request_POST_def journeys_cancel_POST_def
      journeys_dropoff_POST_def journeys_route_change_POST_def)

section \<open>The journey state machine\<close>

text \<open>
  \<open>forward\<close> is the reflexive and transitive closure of the edges; each call moves each
  stored journey along at most one edge; a sequence of calls moves it forward.
\<close>

lemma forward_refl: "forward s s"
  by (simp add: forward_def)

lemma forward_step: "forward s t \<Longrightarrow> t = u \<or> transition t u \<Longrightarrow> forward s u"
  by (cases s; cases t; cases u; simp add: forward_def)

lemma forward_iff_rtranclp: "forward s t \<longleftrightarrow> transition\<^sup>*\<^sup>* s t"
proof
  assume "forward s t"
  then consider "s = t" | "transition s t" | "s = requested" "t = completed"
    by (auto simp: forward_def)
  then show "transition\<^sup>*\<^sup>* s t"
  proof cases
    case 3
    have "transition requested in_progress" "transition in_progress completed" by simp_all
    then have "transition\<^sup>*\<^sup>* requested completed"
      by (meson rtranclp.rtrancl_into_rtrancl rtranclp.rtrancl_refl)
    with 3 show ?thesis by simp
  qed auto
next
  assume "transition\<^sup>*\<^sup>* s t"
  then show "forward s t"
  proof (induction rule: rtranclp_induct)
    case base
    show ?case by (rule forward_refl)
  next
    case (step y z)
    then show ?case using forward_step [of s y z] by blast
  qed
qed

lemma forward_terminal: "forward s t \<Longrightarrow> s = completed \<or> s = cancelled \<Longrightarrow> t = s"
  by (cases s; simp add: forward_def)

lemma statuses_nth:
  "k < length (journeys (readData w)) \<Longrightarrow>
   k < length (statuses w) \<and> statuses w ! k = Journey.status (journeys (readData w) ! k)"
  by (simp add: statuses_def stored_journeys_def)

lemma statuses_same: "readData w' = readData w \<Longrightarrow> statuses w' = statuses w"
  by (simp add: statuses_def stored_journeys_def)

lemma update_is_edge:
  assumes "ys = xs[k := s]" and "k < length xs" and "xs ! k = s \<or> transition (xs ! k) s"
    and "i < length xs"
  shows "i < length ys \<and> (ys ! i = xs ! i \<or> transition (xs ! i) (ys ! i))"
  using assms by (cases "i = k") auto

lemma assign_edge:
  assumes "i < length (statuses w)"
  shows "i < length (statuses (snd (admin_assign_POST disk_ok body w)))
       \<and> (statuses (snd (admin_assign_POST disk_ok body w)) ! i = statuses w ! i
          \<or> transition (statuses w ! i) (statuses (snd (admin_assign_POST disk_ok body w)) ! i))"
proof (cases body)
  case None
  with assms show ?thesis by (simp add: absent_body)
next
  case (Some req)
  obtain r w' where res: "admin_assign_POST disk_ok (Some req) w = (r, w')"
    by (cases "admin_assign_POST disk_ok (Some req) w")
  show ?thesis
  proof (cases r)
    case (ErrorJson c m)
    with res assign_shape [where disk_ok = disk_ok and req = req and w = w]
    have "readData w' = readData w" by simp
    then have "statuses w' = statuses w" by (rule statuses_same)
    with assms Some res show ?thesis by simp
  next
    case (OkJson a b)
    with res assign_shape [where disk_ok = disk_ok and req = req and w = w]
    obtain k where k: "findIndex (\<lambda>j. Journey.id j = AssignJourneyRequest.journeyId req)
        (journeys (readData w)) = Some k"
      and old: "Journey.status (journeys (readData w) ! k) = requested"
      and new: "statuses w' = (statuses w)[k := in_progress]"
      by auto
    from k have "k < length (journeys (readData w))" by (simp add: findIndex_Some_iff)
    with old statuses_nth [of k w]
    have "k < length (statuses w)" "transition (statuses w ! k) in_progress" by simp_all
    with update_is_edge [OF new] assms Some res show ?thesis by simp
  qed
qed

lemma cancel_edge:
  assumes "i < length (statuses w)"
  shows "i < length (statuses (snd (journeys_cancel_POST disk_ok body now_iso w)))
       \<and> (statuses (snd (journeys_cancel_POST disk_ok body now_iso w)) ! i = statuses w ! i
          \<or> transition (statuses w ! i)
               (statuses (snd (journeys_cancel_POST disk_ok body now_iso w)) ! i))"
proof (cases body)
  case None
  with assms show ?thesis by (simp add: absent_body)
next
  case (Some req)
  obtain r w' where res: "journeys_cancel_POST disk_ok (Some req) now_iso w = (r, w')"
    by (cases "journeys_cancel_POST disk_ok (Some req) now_iso w")
  show ?thesis
  proof (cases r)
    case (ErrorJson c m)
    with res cancel_shape [where disk_ok = disk_ok and req = req and now_iso = now_iso and w = w]
    have "readData w' = readData w" by simp
    then have "statuses w' = statuses w" by (rule statuses_same)
    with assms Some res show ?thesis by simp
  next
    case (OkJson a b)
    with res cancel_shape [where disk_ok = disk_ok and req = req and now_iso = now_iso and w = w]
    obtain k where k: "findIndex (\<lambda>j. Journey.id j = CancelRequest.journeyId req)
        (journeys (readData w)) = Some k"
      and old: "Journey.status (journeys (readData w) ! k) \<noteq> completed"
        "Journey.status (journeys (readData w) ! k) \<noteq> cancelled"
      and new: "statuses w' = (statuses w)[k := cancelled]"
      by auto
    from k have "k < length (journeys (readData w))" by (simp add: findIndex_Some_iff)
    with old statuses_nth [of k w]
    have "k < length (statuses w)" "transition (statuses w ! k) cancelled"
      by (cases "statuses w ! k"; simp)+
    with update_is_edge [OF new] assms Some res show ?thesis by simp
  qed
qed

lemma dropoff_edge:
  assumes "i < length (statuses w)"
  shows "i < length (statuses (snd (journeys_dropoff_POST disk_ok body now_iso w)))
       \<and> (statuses (snd (journeys_dropoff_POST disk_ok body now_iso w)) ! i = statuses w ! i
          \<or> transition (statuses w ! i)
               (statuses (snd (journeys_dropoff_POST disk_ok body now_iso w)) ! i))"
proof (cases body)
  case None
  with assms show ?thesis by (simp add: absent_body)
next
  case (Some req)
  obtain r w' where res: "journeys_dropoff_POST disk_ok (Some req) now_iso w = (r, w')"
    by (cases "journeys_dropoff_POST disk_ok (Some req) now_iso w")
  show ?thesis
  proof (cases r)
    case (ErrorJson c m)
    with res dropoff_shape [where disk_ok = disk_ok and req = req and now_iso = now_iso and w = w]
    have "readData w' = readData w" by simp
    then have "statuses w' = statuses w" by (rule statuses_same)
    with assms Some res show ?thesis by simp
  next
    case (OkJson a b)
    with res dropoff_shape [where disk_ok = disk_ok and req = req and now_iso = now_iso and w = w]
    obtain k where k: "findIndex (\<lambda>j. Journey.id j = DropoffRequest.journeyId req)
        (journeys (readData w)) = Some k"
      and old: "Journey.status (journeys (readData w) ! k) = in_progress"
      and new: "statuses w' = (statuses w)[k := completed]"
      by auto
    from k have "k < length (journeys (readData w))" by (simp add: findIndex_Some_iff)
    with old statuses_nth [of k w]
    have "k < length (statuses w)" "transition (statuses w ! k) completed" by simp_all
    with update_is_edge [OF new] assms Some res show ?thesis by simp
  qed
qed

lemma route_change_edge:
  assumes "i < length (statuses w)"
  shows "i < length (statuses (snd (journeys_route_change_POST disk_ok body now_iso w)))
       \<and> (statuses (snd (journeys_route_change_POST disk_ok body now_iso w)) ! i = statuses w ! i
          \<or> transition (statuses w ! i)
               (statuses (snd (journeys_route_change_POST disk_ok body now_iso w)) ! i))"
proof (cases body)
  case None
  with assms show ?thesis by (simp add: absent_body)
next
  case (Some req)
  obtain r w' where res: "journeys_route_change_POST disk_ok (Some req) now_iso w = (r, w')"
    by (cases "journeys_route_change_POST disk_ok (Some req) now_iso w")
  show ?thesis
  proof (cases r)
    case (ErrorJson c m)
    with res route_change_shape [where disk_ok = disk_ok and req = req and now_iso = now_iso
        and w = w]
    have "readData w' = readData w" by simp
    then have "statuses w' = statuses w" by (rule statuses_same)
    with assms Some res show ?thesis by simp
  next
    case (OkJson a b)
    with res route_change_shape [where disk_ok = disk_ok and req = req and now_iso = now_iso
        and w = w]
    obtain k where k: "findIndex (\<lambda>j. Journey.id j = RouteChangeRequest.journeyId req)
        (journeys (readData w)) = Some k"
      and old: "Journey.status (journeys (readData w) ! k) = in_progress"
      and new: "statuses w' = (statuses w)[k := in_progress]"
      by auto
    from k have "k < length (journeys (readData w))" by (simp add: findIndex_Some_iff)
    with old statuses_nth [of k w]
    have "k < length (statuses w)" "statuses w ! k = in_progress" by simp_all
    with update_is_edge [OF new] assms Some res show ?thesis by simp
  qed
qed

lemma request_edge:
  assumes "i < length (statuses w)"
  shows "i < length (statuses (snd (journeys_request_POST disk_ok body now_ms now_iso w)))
       \<and> statuses (snd (journeys_request_POST disk_ok body now_ms now_iso w)) ! i = statuses w ! i"
proof (cases body)
  case None
  with assms show ?thesis by (simp add: absent_body)
next
  case (Some req)
  obtain r w' where res: "journeys_request_POST disk_ok (Some req) now_ms now_iso w = (r, w')"
    by (cases "journeys_request_POST disk_ok (Some req) now_ms now_iso w")
  show ?thesis
  proof (cases r)
    case (ErrorJson c m)
    with res request_shape [where disk_ok = disk_ok and req = req and now_ms = now_ms
        and now_iso = now_iso and w = w]
    have "readData w' = readData w" by simp
    then have "statuses w' = statuses w" by (rule statuses_same)
    with assms Some res show ?thesis by simp
  next
    case (OkJson a b)
    with res request_shape [where disk_ok = disk_ok and req = req and now_ms = now_ms
        and now_iso = now_iso and w = w]
    obtain nj where "journeys (readData w') = journeys (readData w) @ [nj]"
      by auto
    then have "statuses w' = statuses w @ [Journey.status nj]"
      by (simp add: statuses_def stored_journeys_def)
    with assms Some res show ?thesis by (simp add: nth_append)
  qed
qed

lemma handle_edge:
  assumes "guarded c" and "i < length (statuses w)"
  shows "i < length (statuses (handle c w))
       \<and> (statuses (handle c w) ! i = statuses w ! i
          \<or> transition (statuses w ! i) (statuses (handle c w) ! i))"
proof (cases c)
  case (RequestCall disk_ok body now_ms now_iso)
  with request_edge [OF assms(2), of disk_ok body now_ms now_iso] show ?thesis by simp
next
  case (AssignCall disk_ok body)
  with assign_edge [OF assms(2), of disk_ok body] show ?thesis by simp
next
  case (PutAssignCall disk_ok body)
  with assms(1) show ?thesis by simp
next
  case (CancelCall disk_ok body now_iso)
  with cancel_edge [OF assms(2), of disk_ok body now_iso] show ?thesis by simp
next
  case (DropoffCall disk_ok body now_iso)
  with dropoff_edge [OF assms(2), of disk_ok body now_iso] show ?thesis by simp
next
  case (RouteChangeCall disk_ok body now_iso)
  with route_change_edge [OF assms(2), of disk_ok body now_iso] show ?thesis by simp
next
  case (DriverStatusCall disk_ok body now_iso)
  with assms(1) show ?thesis by simp
next
  case (DriverActionCall disk_ok body now_iso)
  with assms(1) show ?thesis by simp
qed

lemma handle_all_forward:
  "\<forall>c\<in>set cs. guarded c \<Longrightarrow> i < length (statuses w) \<Longrightarrow> forward s (statuses w ! i) \<Longrightarrow>
   i < length (statuses (handle_all cs w)) \<and> forward s (statuses (handle_all cs w) ! i)"
proof (induction cs arbitrary: w)
  case Nil
  then show ?case by simp
next
  case (Cons c cs)
  from Cons.prems(1) have c: "guarded c" and cs: "\<forall>c\<in>set cs. guarded c" by simp_all
  from handle_edge [OF c Cons.prems(2)]
  have len: "i < length (statuses (handle c w))"
    and edge: "statuses (handle c w) ! i = statuses w ! i
      \<or> transition (statuses w ! i) (statuses (handle c w) ! i)"
    by simp_all
  from Cons.prems(3) edge have "forward s (statuses (handle c w) ! i)"
    by (auto intro: forward_step)
  with Cons.IH [OF cs len] show ?case by simp
qed

text \<open>
  Through any sequence of guarded calls (request, admin assign, cancel, drop-off, route
  change; any bodies, any clock, working disk or not) every stored journey stays stored at
  its position and its status moves forward along requested, in-progress, completed or
  cancelled; a journey that is completed or cancelled keeps its status. A cancel request
  for a journey found completed or cancelled, and a drop-off request for a journey found in
  any status but in-progress, are answered with 400 and leave the world as it was.
\<close>

lemma guarded_calls_move_forward:
  "((\<forall>c\<in>set cs. guarded c) \<longrightarrow> (\<forall>i<length (statuses w).
       i < length (statuses (handle_all cs w))
     \<and> forward (statuses w ! i) (statuses (handle_all cs w) ! i)
     \<and> (statuses w ! i = completed \<or> statuses w ! i = cancelled
          \<longrightarrow> statuses (handle_all cs w) ! i = statuses w ! i)))
   \<and> (\<forall>j. CancelRequest.journeyId creq \<noteq> []
          \<and> List.find (\<lambda>x. Journey.id x = CancelRequest.journeyId creq) (journeys (readData w))
              = Some j
          \<and> (Journey.status j = completed \<or> Journey.status j = cancelled)
        \<longrightarrow> journeys_cancel_POST disk_ok (Some creq) now_iso w =
              (ErrorJson 400 (if Journey.status j = completed
                              then ''Cannot cancel a completed journey''
                              else ''Journey is already cancelled''), w))
   \<and> (\<forall>j. DropoffRequest.journeyId dreq \<noteq> []
          \<and> List.find (\<lambda>x. Journey.id x = DropoffRequest.journeyId dreq) (journeys (readData w))
              = Some j
          \<and> Journey.status j \<noteq> in_progress
        \<longrightarrow> journeys_dropoff_POST disk_ok (Some dreq) now_iso w =
              (ErrorJson 400 ''Drop-off can only be requested for journeys in progress'', w))"
proof (intro conjI allI impI)
  fix i
  assume g: "\<forall>c\<in>set cs. guarded c" and i: "i < length (statuses w)"
  from handle_all_forward [OF g i forward_refl]
  show "i < length (statuses (handle_all cs w))"
    and fwd: "forward (statuses w ! i) (statuses (handle_all cs w) ! i)"
    by simp_all
  assume "statuses w ! i = completed \<or> statuses w ! i = cancelled"
  with fwd show "statuses (handle_all cs w) ! i = statuses w ! i"
    by (rule forward_terminal)
next
  fix j
  assume a: "CancelRequest.journeyId creq \<noteq> []
          \<and> List.find (\<lambda>x. Journey.id x = CancelRequest.journeyId creq) (journeys (readData w))
              = Some j
          \<and> (Journey.status j = completed \<or> Journey.status j = cancelled)"
  then obtain k where "findIndex (\<lambda>x. Journey.id x = CancelRequest.journeyId creq)
      (journeys (readData w)) = Some k" "journeys (readData w) ! k = j"
    by (auto simp: find_findIndex)
  with a show "journeys_cancel_POST disk_ok (Some creq) now_iso w =
              (ErrorJson 400 (if Journey.status j = completed
                              then ''Cannot cancel a completed journey''
                              else ''Journey is already cancelled''), w)"
    by (auto simp: journeys_cancel_POST_def Let_def)
next
  fix j
  assume a: "DropoffRequest.journeyId dreq \<noteq> []
          \<and> List.find (\<lambda>x. Journey.id x = DropoffRequest.journeyId dreq) (journeys (readData w))
              = Some j
          \<and> Journey.status j \<noteq> in_progress"
  then obtain k where "findIndex (\<lambda>x. Journey.id x = DropoffRequest.journeyId dreq)
      (journeys (readData w)) = Some k" "journeys (readData w) ! k = j"
    by (auto simp: find_findIndex)
  with a show "journeys_dropoff_POST disk_ok (Some dreq) now_iso w =
              (ErrorJson 400 ''Drop-off can only be requested for journeys in progress'', w)"
    by (simp add: journeys_dropoff_POST_def Let_def)
qed

text \<open>
  At the small fleet and one guarded call of each kind: completed journey-5 is still
  completed afterwards, requested journey-5 has moved forward, and cancel and drop-off on
  the completed journey are refused.
\<close>

lemma guarded_calls_move_forward_example:
  "statuses example_world_completed = [completed]
   \<and> statuses (handle_all example_calls example_world_completed) ! 0 = completed
   \<and> statuses example_world = [requested]
   \<and> forward requested (statuses (handle_all example_calls example_world) ! 0)
   \<and> journeys_cancel_POST True (Some example_cancel) ''t2'' example_world_completed =
       (ErrorJson 400 ''Cannot cancel a completed journey'', example_world_completed)
   \<and> journeys_dropoff_POST True (Some example_dropoff) ''t3'' example_world_completed =
       (ErrorJson 400 ''Drop-off can only be requested for journeys in progress'',
        example_world_completed)"
proof -
  have ended: "statuses example_world_completed = [completed]"
    by (simp add: statuses_def stored_journeys_def readData_def example_world_completed_def
        example_journey_completed_def)
  have fresh: "statuses example_world = [requested]"
    by (simp add: statuses_def stored_journeys_def readData_def example_world_def
        example_data_def example_journey_def)
  have found: "List.find (\<lambda>x. Journey.id x = ''journey-5'')
      (journeys (readData example_world_completed)) = Some example_journey_completed"
    "Journey.status example_journey_completed = completed"
    by (simp_all add: readData_def example_world_completed_def example_journey_completed_def
        example_journey_in_progress_def example_journey_def)
  have ids: "CancelRequest.journeyId example_cancel = ''journey-5''"
    "DropoffRequest.journeyId example_dropoff = ''journey-5''"
    by (simp_all add: example_cancel_def example_dropoff_def)
  have g: "\<forall>c\<in>set example_calls. guarded c"
    by (simp add: example_calls_def)
  note at_done = guarded_calls_move_forward [of example_calls example_world_completed
      example_cancel True "''t2''" example_dropoff]
  note at_done' = guarded_calls_move_forward [of example_calls example_world_completed
      example_cancel True "''t3''" example_dropoff]
  note at_fresh = guarded_calls_move_forward [of example_calls example_world
      example_cancel True "''t2''" example_dropoff]
  from at_done g ended have "statuses (handle_all example_calls example_world_completed) ! 0 = completed"
    by simp
  moreover from at_fresh g fresh
  have "forward requested (statuses (handle_all example_calls example_world) ! 0)"
    by simp
  moreover from at_done found ids
  have "journeys_cancel_POST True (Some example_cancel) ''t2'' example_world_completed =
       (ErrorJson 400 ''Cannot cancel a completed journey'', example_world_completed)"
    by simp
  moreover from at_done' found ids
  have "journeys_dropoff_POST True (Some example_dropoff) ''t3'' example_world_completed =
       (ErrorJson 400 ''Drop-off can only be requested for journeys in progress'',
        example_world_completed)"
    by simp
  ultimately show ?thesis using ended fresh by simp
qed

text \<open>
  C2. Through every sequence of the operations request, assign, cancel, drop-off and route
  change a journey's status should only move forward, and no operation should change the
  status of a completed or cancelled journey. The guarded handlers keep this (lemma
  \<open>guarded_calls_move_forward\<close>), the admin assignment among them, which refuses a journey
  that is not requested. The second assignment route, PUT /api/journeys/assign, has no such
  test: called for completed journey-5 with car c1 and driver d1 it answers with success and
  stores the journey as in progress.
\<close>

theorem C2_put_assign_reopens_completed:
  "statuses example_world_completed = [completed]
   \<and> fst (journeys_assign_PUT True (Some example_assign) example_world_completed) =
       OkJson (Some ''Car and driver assigned successfully'')
         (Some (example_journey_completed\<lparr>Journey.status := in_progress\<rparr>))
   \<and> statuses (handle_all [PutAssignCall True (Some example_assign)] example_world_completed) =
       [in_progress]
   \<and> \<not> forward completed in_progress"
  by (simp add: journeys_assign_PUT_def writeData_def Let_def statuses_def stored_journeys_def
      readData_def forward_def example_assign_def example_world_completed_def
      example_journey_completed_def example_journey_in_progress_def example_journey_def
      example_data_in_progress_def example_data_def example_car_def)

text \<open>
  The drivers' handlers have no test of the old status either: driver d1 sets completed
  journey-5 back to requested through each of them.
\<close>

lemma driver_handlers_reopen_completed:
  "statuses (handle_all [DriverStatusCall True (Some example_driver_status) ''t6'']
      example_world_completed) = [requested]"
  "statuses (handle_all [DriverActionCall True (Some example_driver_action) ''t6'']
      example_world_completed) = [requested]"
  by (simp_all add: driver_journey_status_POST_def driver_POST_update_journey_status_def
      writeData_def Let_def statuses_def stored_journeys_def readData_def
      example_driver_status_def example_driver_action_def example_world_completed_def
      example_journey_completed_def example_journey_in_progress_def example_journey_def
      example_data_in_progress_def example_data_def)

section \<open>The pending-requests counter\<close>














section \<open>Journey requests\<close>

lemma find_None_count: "List.find P xs = None \<longleftrightarrow> length (filter P xs) = 0"
  by (auto simp: find_None_iff filter_empty_conv)

lemma request_keeps_at_most_one:
  assumes "requested_by x (readData w) \<le> 1"
  shows "requested_by x (readData (snd (journeys_request_POST disk_ok body now_ms now_iso w))) \<le> 1"
proof (cases body)
  case None
  with assms show ?thesis by (simp add: absent_body)
next
  case (Some req)
  obtain r w' where res: "journeys_request_POST disk_ok (Some req) now_ms now_iso w = (r, w')"
    by (cases "journeys_request_POST disk_ok (Some req) now_ms now_iso w")
  have "requested_by x (readData w') \<le> 1"
  proof (cases r)
    case (ErrorJson c m)
    with res request_shape [where disk_ok = disk_ok and req = req and now_ms = now_ms
        and now_iso = now_iso and w = w]
    have "readData w' = readData w" by simp
    with assms show ?thesis by simp
  next
    case (OkJson a b)
    with res request_shape [where disk_ok = disk_ok and req = req and now_ms = now_ms
        and now_iso = now_iso and w = w]
    obtain nj where none: "List.find (\<lambda>j. Journey.userId j = JourneyRequest.userId req
          \<and> Journey.status j = requested) (journeys (readData w)) = None"
      and nj: "Journey.userId nj = JourneyRequest.userId req"
      and new: "readData w' = (readData w)
         \<lparr>journeys := journeys (readData w) @ [nj],
          systemStats := (systemStats (readData w))
            \<lparr>pendingRequests := pendingRequests (systemStats (readData w)) + 1\<rparr>\<rparr>"
      by auto
    from none have "requested_by (JourneyRequest.userId req) (readData w) = 0"
      by (simp add: find_None_count requested_by_def)
    with assms nj show ?thesis
      by (cases "x = JourneyRequest.userId req") (simp_all add: new requested_by_def)
  qed
  with Some res show ?thesis by simp
qed

text \<open>
  C4, as stated, promises the conflict response 409 whenever some journey of the user is
  requested. The handler looks the user up first: in the fleet without its user, where
  requested journey-5 still names u1, a request for u1 is answered 404.
\<close>

theorem C4_unknown_user_counterexample:
  "0 < requested_by ''u1'' (readData example_world_no_user)
   \<and> JourneyRequest.userId example_request = ''u1''
   \<and> journeys_request_POST True (Some example_request) 7 ''t1'' example_world_no_user =
       (ErrorJson 404 ''User not found'', example_world_no_user)"
  by (simp add: journeys_request_POST_def readData_def Let_def requested_by_def
      example_request_def example_world_no_user_def example_data_def example_journey_def)

text \<open>
  C4, amended. A journey request carries a user id, a destination and a start location
  (all present). If no stored user has the id, the answer is 404 and the world is
  unchanged. If the user exists and has a requested journey, the answer is 409 and the
  world is unchanged, so no journey is added. If the user exists and has no requested
  journey, one journey is appended to the stored ones, with status requested, empty car
  and driver ids and no end time, and the user then has exactly one requested journey.
  For every user, a request call keeps the number of requested journeys at most 1 if it
  was at most 1.
\<close>

theorem C4_request_conflict:
  assumes stored: "fileContents w = Some d"
    and present: "JourneyRequest.userId req \<noteq> []" "destination req \<noteq> []"
      "JourneyRequest.startLocation req = Some startLoc"
  shows "(List.find (\<lambda>u. User.id u = JourneyRequest.userId req) (users d) = None \<longrightarrow>
            journeys_request_POST disk_ok (Some req) now_ms now_iso w =
              (ErrorJson 404 ''User not found'', w))
       \<and> (\<forall>user. List.find (\<lambda>u. User.id u = JourneyRequest.userId req) (users d) = Some user \<longrightarrow>
            (0 < requested_by (JourneyRequest.userId req) d \<longrightarrow>
               journeys_request_POST disk_ok (Some req) now_ms now_iso w =
                 (ErrorJson 409 ''You already have a pending journey request'', w))
          \<and> (requested_by (JourneyRequest.userId req) d = 0 \<longrightarrow>
               (\<exists>nj d'. journeys_request_POST disk_ok (Some req) now_ms now_iso w =
                    (if disk_ok
                     then (OkJson
                             (Some ''Journey request submitted successfully. Waiting for admin allocation.'')
                             (Some nj),
                           w\<lparr>fileContents := Some d', writes := writes w @ [d']\<rparr>)
                     else (ErrorJson 500 ''Failed to create journey request'',
                           w\<lparr>writes := writes w @ [d']\<rparr>))
                  \<and> journeys d' = journeys d @ [nj]
                  \<and> Journey.status nj = requested
                  \<and> Journey.carId nj = []
                  \<and> Journey.driverId nj = []
                  \<and> endTime nj = None
                  \<and> Journey.userId nj = JourneyRequest.userId req
                  \<and> requested_by (JourneyRequest.userId req) d' = 1)))
       \<and> (\<forall>x. requested_by x d \<le> 1 \<longrightarrow>
            requested_by x (readData
              (snd (journeys_request_POST disk_ok (Some req) now_ms now_iso w))) \<le> 1)"
proof (intro conjI allI impI)
  assume "List.find (\<lambda>u. User.id u = JourneyRequest.userId req) (users d) = None"
  with stored present
  show "journeys_request_POST disk_ok (Some req) now_ms now_iso w =
      (ErrorJson 404 ''User not found'', w)"
    by (simp add: journeys_request_POST_def readData_def Let_def)
next
  fix user
  assume user: "List.find (\<lambda>u. User.id u = JourneyRequest.userId req) (users d) = Some user"
  assume "0 < requested_by (JourneyRequest.userId req) d"
  then have "List.find (\<lambda>j. Journey.userId j = JourneyRequest.userId req
      \<and> Journey.status j = requested) (journeys d) \<noteq> None"
    by (simp add: find_None_count requested_by_def)
  then obtain e where "List.find (\<lambda>j. Journey.userId j = JourneyRequest.userId req
      \<and> Journey.status j = requested) (journeys d) = Some e"
    by blast
  with stored present user
  show "journeys_request_POST disk_ok (Some req) now_ms now_iso w =
      (ErrorJson 409 ''You already have a pending journey request'', w)"
    by (simp add: journeys_request_POST_def readData_def Let_def)
next
  fix user
  assume user: "List.find (\<lambda>u. User.id u = JourneyRequest.userId req) (users d) = Some user"
  assume zero: "requested_by (JourneyRequest.userId req) d = 0"
  then have none: "List.find (\<lambda>j. Journey.userId j = JourneyRequest.userId req
      \<and> Journey.status j = requested) (journeys d) = None"
    by (simp add: find_None_count requested_by_def)
  define nj where "nj =
     \<lparr>userDesignation = None,
      Journey.id = ''journey-'' @ number_toString now_ms,
      Journey.carId = [],
      Journey.driverId = [],
      Journey.userId = JourneyRequest.userId req,
      userName = User.name user,
      driverName = [],
      carModel = [],
      Journey.startLocation = startLoc,
      endLocation = \<lparr>lat = 0, lng = 0, address = destination req\<rparr>,
      waypoints = [],
      Journey.status = requested,
      startTime = now_iso,
      endTime = None,
      distance = 0,
      rating = None,
      routeChanges = [],
      estimatedDuration = 0\<rparr>"
  define d' where "d' = d\<lparr>journeys := journeys d @ [nj],
     systemStats := (systemStats d)\<lparr>pendingRequests := pendingRequests (systemStats d) + 1\<rparr>\<rparr>"
  have run: "journeys_request_POST disk_ok (Some req) now_ms now_iso w =
      (if disk_ok
       then (OkJson
               (Some ''Journey request submitted successfully. Waiting for admin allocation.'')
               (Some nj),
             w\<lparr>fileContents := Some d', writes := writes w @ [d']\<rparr>)
       else (ErrorJson 500 ''Failed to create journey request'',
             w\<lparr>writes := writes w @ [d']\<rparr>))"
    using stored present user none
    by (simp add: journeys_request_POST_def readData_def writeData_def Let_def nj_def d'_def)
  have fields: "journeys d' = journeys d @ [nj]" "Journey.status nj = requested"
    "Journey.carId nj = []" "Journey.driverId nj = []" "endTime nj = None"
    "Journey.userId nj = JourneyRequest.userId req"
    by (simp_all add: d'_def nj_def)
  from zero fields have one: "requested_by (JourneyRequest.userId req) d' = 1"
    by (simp add: requested_by_def)
  from run fields one
  show "\<exists>nj d'. journeys_request_POST disk_ok (Some req) now_ms now_iso w =
        (if disk_ok
         then (OkJson
                 (Some ''Journey request submitted successfully. Waiting for admin allocation.'')
                 (Some nj),
               w\<lparr>fileContents := Some d', writes := writes w @ [d']\<rparr>)
         else (ErrorJson 500 ''Failed to create journey request'',
               w\<lparr>writes := writes w @ [d']\<rparr>))
      \<and> journeys d' = journeys d @ [nj]
      \<and> Journey.status nj = requested
      \<and> Journey.carId nj = []
      \<and> Journey.driverId nj = []
      \<and> endTime nj = None
      \<and> Journey.userId nj = JourneyRequest.userId req
      \<and> requested_by (JourneyRequest.userId req) d' = 1"
    by blast
next
  fix x
  assume "requested_by x d \<le> 1"
  with stored have "requested_by x (readData w) \<le> 1" by (simp add: readData_def)
  then show "requested_by x (readData
      (snd (journeys_request_POST disk_ok (Some req) now_ms now_iso w))) \<le> 1"
    by (rule request_keeps_at_most_one)
qed

text \<open>
  The theorem at the small fleet, where u1 already waits (409), and at the two-user fleet
  without journeys, where the request of u1 is stored.
\<close>

theorem C4_request_conflict_witness:
  "journeys_request_POST True (Some example_request) 7 ''t1'' example_world =
     (ErrorJson 409 ''You already have a pending journey request'', example_world)
   \<and> requested_by ''u1'' (readData
         (snd (journeys_request_POST True (Some example_request) 7 ''t1'' example_world))) \<le> 1
   \<and> (\<exists>nj d'. journeys_request_POST True (Some example_request) 7 ''t1'' example_world_two_users =
          (OkJson (Some ''Journey request submitted successfully. Waiting for admin allocation.'')
             (Some nj),
           example_world_two_users\<lparr>fileContents := Some d', writes := [d']\<rparr>)
        \<and> journeys d' = [nj]
        \<and> Journey.status nj = requested
        \<and> Journey.carId nj = []
        \<and> Journey.driverId nj = []
        \<and> endTime nj = None
        \<and> Journey.userId nj = ''u1''
        \<and> requested_by ''u1'' d' = 1)"
proof -
  have stored: "fileContents example_world = Some example_data"
    "fileContents example_world_two_users = Some example_data_two_users"
    by (simp_all add: example_world_def example_world_two_users_def)
  have present: "JourneyRequest.userId example_request \<noteq> []" "destination example_request \<noteq> []"
    "JourneyRequest.startLocation example_request = Some example_location"
    by (simp_all add: example_request_def)
  have uid: "JourneyRequest.userId example_request = ''u1''"
    by (simp add: example_request_def)
  have user: "List.find (\<lambda>u. User.id u = ''u1'') (users example_data) = Some example_user"
    "List.find (\<lambda>u. User.id u = ''u1'') (users example_data_two_users) = Some example_user"
    by (simp_all add: example_data_def example_data_two_users_def example_user_def)
  have pending: "requested_by ''u1'' example_data = 1"
    "requested_by ''u1'' example_data_two_users = 0"
    by (simp_all add: requested_by_def example_data_def example_data_two_users_def
        example_journey_def)
  have empty: "journeys example_data_two_users = []" "writes example_world_two_users = []"
    by (simp_all add: example_data_two_users_def example_world_two_users_def)
  note busy = C4_request_conflict [OF stored(1) present, where disk_ok = True and now_ms = 7
      and now_iso = "''t1''", unfolded uid]
  note free = C4_request_conflict [OF stored(2) present, where disk_ok = True and now_ms = 7
      and now_iso = "''t1''", unfolded uid]
  from busy user(1) pending(1)
  have refused: "journeys_request_POST True (Some example_request) 7 ''t1'' example_world =
     (ErrorJson 409 ''You already have a pending journey request'', example_world)"
    by simp
  from busy pending(1)
  have kept: "requested_by ''u1'' (readData
         (snd (journeys_request_POST True (Some example_request) 7 ''t1'' example_world))) \<le> 1"
    by simp
  from free user(2) pending(2)
  have created: "\<exists>nj d'. journeys_request_POST True (Some example_request) 7 ''t1''
          example_world_two_users =
          (OkJson (Some ''Journey request submitted successfully. Waiting for admin allocation.'')
             (Some nj),
           example_world_two_users\<lparr>fileContents := Some d', writes := [d']\<rparr>)
        \<and> journeys d' = [nj]
        \<and> Journey.status nj = requested
        \<and> Journey.carId nj = []
        \<and> Journey.driverId nj = []
        \<and> endTime nj = None
        \<and> Journey.userId nj = ''u1''
        \<and> requested_by ''u1'' d' = 1"
    by (simp add: empty)
  from refused kept created show ?thesis by blast
qed

end
